theory Spec2Isabelle
  imports Main "HOL-Library.Sublist" "HOL-Library.FSet" "HOL-Library.Char_ord"
    "HOL-Library.List_Lexorder"
begin

section \<open>Python values and strings\<close>

text \<open>
  Python strings are modelled as \<open>string\<close> (lists of 8-bit characters). The model
  covers ASCII text: \<open>lower\<close>, \<open>strip\<close>, \<open>split\<close>, \<open>\d\<close> and \<open>title\<close> act on the
  ASCII letters, digits and whitespace only, and a character above 127 is kept as it
  is. Python's \<open>str.isspace\<close> holds for the six ASCII whitespace characters and for
  the separators \<open>0x1c\<close> .. \<open>0x1f\<close>.
\<close>

definition upper_letters :: string where
  "upper_letters = ''ABCDEFGHIJKLMNOPQRSTUVWXYZ''"

definition lower_letters :: string where
  "lower_letters = ''abcdefghijklmnopqrstuvwxyz''"

definition digits :: string where
  "digits = ''0123456789''"

definition is_upper :: "char \<Rightarrow> bool" where
  "is_upper c = (c \<in> set upper_letters)"

definition is_lower :: "char \<Rightarrow> bool" where
  "is_lower c = (c \<in> set lower_letters)"

definition is_digit :: "char \<Rightarrow> bool" where
  "is_digit c = (c \<in> set digits)"

definition is_space :: "char \<Rightarrow> bool" where
  "is_space c = (c \<in> set [CHR 0x09, CHR 0x0A, CHR 0x0B, CHR 0x0C, CHR 0x0D,
                             CHR 0x1C, CHR 0x1D, CHR 0x1E, CHR 0x1F, CHR '' ''])"

definition lower_char :: "char \<Rightarrow> char" where
  "lower_char c = (case map_of (zip upper_letters lower_letters) c of None \<Rightarrow> c | Some d \<Rightarrow> d)"

definition upper_char :: "char \<Rightarrow> char" where
  "upper_char c = (case map_of (zip lower_letters upper_letters) c of None \<Rightarrow> c | Some d \<Rightarrow> d)"

text \<open>\<open>s.lower()\<close>\<close>

definition lower :: "string \<Rightarrow> string" where
  "lower s = map lower_char s"

text \<open>\<open>s.strip(chars)\<close> for a predicate on characters, and \<open>s.strip()\<close>\<close>

definition strip_chars :: "(char \<Rightarrow> bool) \<Rightarrow> string \<Rightarrow> string" where
  "strip_chars P s = rev (dropWhile P (rev (dropWhile P s)))"

definition strip :: "string \<Rightarrow> string" where
  "strip s = strip_chars is_space s"

text \<open>\<open>p in s\<close> on strings: \<open>p\<close> occurs in \<open>s\<close> as a contiguous substring.\<close>

fun contains :: "string \<Rightarrow> string \<Rightarrow> bool" where
  "contains [] p = (p = [])"
| "contains (c # cs) p = (prefix p (c # cs) \<or> contains cs p)"

text \<open>\<open>str(n)\<close> for a natural number: its decimal digits.\<close>

definition digit_char :: "nat \<Rightarrow> char" where
  "digit_char d = digits ! d"

fun str_nat :: "nat \<Rightarrow> string" where
  "str_nat n = (if n < 10 then [digit_char n] else str_nat (n div 10) @ [digit_char (n mod 10)])"

declare str_nat.simps [simp del]

text \<open>\<open>sep.join(xs)\<close>\<close>

fun join :: "string \<Rightarrow> string list \<Rightarrow> string" where
  "join sep [] = []"
| "join sep [x] = x"
| "join sep (x # y # ys) = x @ sep @ join sep (y # ys)"

text \<open>\<open>str(i)\<close> for a Python integer.\<close>

definition str_int :: "int \<Rightarrow> string" where
  "str_int i = (if i < 0 then ''-'' @ str_nat (nat (- i)) else str_nat (nat i))"

text \<open>
  The values that \<open>yaml.safe_load\<close> and \<open>json.loads\<close> decode to: \<open>None\<close>, booleans,
  integers, strings, lists and mappings. Mappings are association lists with string
  keys (the scripts only look string keys up). Floats, timestamps, binary values and
  sets are outside the model.
\<close>

datatype yval =
    YNone
  | YBool bool
  | YInt int
  | YStr string
  | YList "yval list"
  | YDict "(string \<times> yval) list"

text \<open>The exceptions the scripts can run into; an exception that is not caught ends the
  run.\<close>

datatype py_error = TypeError | ValueError | AttributeError | OverflowError

text \<open>\<open>payload.get(key, default)\<close>; \<open>payload.get(key)\<close> is \<open>get p key YNone\<close>.\<close>

definition get :: "(string \<times> yval) list \<Rightarrow> string \<Rightarrow> yval \<Rightarrow> yval" where
  "get p k d = (case map_of p k of None \<Rightarrow> d | Some v \<Rightarrow> v)"

text \<open>
  \<open>repr(s)\<close> of a string: single quotes, unless the string holds a single quote and
  no double quote; the quote and the backslash are escaped, tab, newline and carriage
  return are written \<open>\t\<close>, \<open>\n\<close>, \<open>\r\<close>, and any other control character as \<open>\xNN\<close>.
\<close>

definition hex_digit :: "nat \<Rightarrow> char" where
  "hex_digit d = ''0123456789abcdef'' ! d"

definition is_control :: "char \<Rightarrow> bool" where
  "is_control c = ((of_char c :: nat) < 32 \<or> (of_char c :: nat) = 127)"

definition repr_char :: "char \<Rightarrow> char \<Rightarrow> string" where
  "repr_char q c =
     (if c = q \<or> c = CHR 0x5C then [CHR 0x5C, c]
      else if c = CHR 0x09 then [CHR 0x5C, CHR ''t'']
      else if c = CHR 0x0A then [CHR 0x5C, CHR ''n'']
      else if c = CHR 0x0D then [CHR 0x5C, CHR ''r'']
      else if is_control c
        then [CHR 0x5C, CHR ''x'', hex_digit ((of_char c :: nat) div 16),
              hex_digit ((of_char c :: nat) mod 16)]
      else [c])"

definition repr_str :: "string \<Rightarrow> string" where
  "repr_str s =
     (let q = (if CHR 0x27 \<in> set s \<and> CHR 0x22 \<notin> set s then CHR 0x22 else CHR 0x27)
      in [q] @ concat (map (repr_char q) s) @ [q])"

text \<open>\<open>repr(v)\<close> and \<open>str(v)\<close>; they differ on strings only.\<close>

fun py_repr :: "yval \<Rightarrow> string" where
  "py_repr YNone = ''None''"
| "py_repr (YBool b) = (if b then ''True'' else ''False'')"
| "py_repr (YInt i) = str_int i"
| "py_repr (YStr s) = repr_str s"
| "py_repr (YList xs) = ''['' @ join '', '' (map py_repr xs) @ '']''"
| "py_repr (YDict kvs) =
     ''{'' @ join '', '' (map (\<lambda>kv. repr_str (fst kv) @ '': '' @ py_repr (snd kv)) kvs) @ ''}''"

definition py_str :: "yval \<Rightarrow> string" where
  "py_str v = (case v of YStr s \<Rightarrow> s | _ \<Rightarrow> py_repr v)"

text \<open>
  \<open>int(v)\<close>. A string is stripped of whitespace and must then be an optional sign
  followed by decimal digits, where single underscores may separate digits; more
  than 4300 digits are refused (the interpreter's default limit). \<open>None\<close>, lists and
  mappings raise \<open>TypeError\<close>, an ill-formed string raises \<open>ValueError\<close>.
\<close>

fun digit_groups :: "string \<Rightarrow> bool" where
  "digit_groups [] = False"
| "digit_groups [c] = is_digit c"
| "digit_groups (c # d # cs) =
     (is_digit c \<and> (if d = CHR ''_'' then digit_groups cs else digit_groups (d # cs)))"

definition digit_val :: "char \<Rightarrow> nat" where
  "digit_val c = (of_char c :: nat) - 48"

definition nat_of_digits :: "string \<Rightarrow> nat" where
  "nat_of_digits ds = foldl (\<lambda>acc c. 10 * acc + digit_val c) 0 ds"

definition parse_int :: "string \<Rightarrow> py_error + int" where
  "parse_int s =
     (let t = strip s;
          neg = (t \<noteq> [] \<and> hd t = CHR ''-'');
          body = (if t \<noteq> [] \<and> (hd t = CHR ''-'' \<or> hd t = CHR ''+'') then tl t else t);
          ds = filter (\<lambda>c. c \<noteq> CHR ''_'') body
      in if \<not> digit_groups body \<or> length ds > 4300 then Inl ValueError
         else Inr (if neg then - int (nat_of_digits ds) else int (nat_of_digits ds)))"

definition py_int :: "yval \<Rightarrow> py_error + int" where
  "py_int v =
     (case v of
        YInt i \<Rightarrow> Inr i
      | YBool b \<Rightarrow> Inr (if b then 1 else 0)
      | YStr s \<Rightarrow> parse_int s
      | _ \<Rightarrow> Inl TypeError)"

text \<open>Lists and mappings are unhashable: looking one up in a set or a dictionary raises
  \<open>TypeError\<close>. \<open>v in S\<close> for a set \<open>S\<close> of strings:\<close>

definition hashable :: "yval \<Rightarrow> bool" where
  "hashable v = (case v of YList _ \<Rightarrow> False | YDict _ \<Rightarrow> False | _ \<Rightarrow> True)"

definition in_strs :: "yval \<Rightarrow> string list \<Rightarrow> py_error + bool" where
  "in_strs v S =
     (if hashable v then Inr (case v of YStr s \<Rightarrow> s \<in> set S | _ \<Rightarrow> False)
      else Inl TypeError)"

text \<open>\<open>isinstance(v, int)\<close> holds for booleans as well.\<close>

definition is_int :: "yval \<Rightarrow> bool" where
  "is_int v = (case v of YInt _ \<Rightarrow> True | YBool _ \<Rightarrow> True | _ \<Rightarrow> False)"

definition is_bool :: "yval \<Rightarrow> bool" where
  "is_bool v = (case v of YBool _ \<Rightarrow> True | _ \<Rightarrow> False)"

text \<open>\<open>Path(name).stem\<close>: the name without its last suffix.\<close>

definition last_dot :: "string \<Rightarrow> nat option" where
  "last_dot name =
     (if CHR ''.'' \<in> set name
      then Some (length name - 1 - length (takeWhile (\<lambda>c. c \<noteq> CHR ''.'') (rev name)))
      else None)"

definition stem :: "string \<Rightarrow> string" where
  "stem name =
     (case last_dot name of
        None \<Rightarrow> name
      | Some i \<Rightarrow> if 0 < i \<and> i < length name - 1 then take i name else name)"

section \<open>The importer: slugs and identifiers\<close>

text \<open>
  \<^verbatim>\<open>
  def slugify(value: str) -> str:
      value = value.lower().strip()
      value = re.sub(r"[^a-z0-9]+", "-", value)
      value = value.strip("-")
      return value or "cert"
  \<close>
\<close>

definition slug_alnum :: "char \<Rightarrow> bool" where
  "slug_alnum c = (is_lower c \<or> is_digit c)"

text \<open>\<open>re.sub(r"[^a-z0-9]+", "-", value)\<close>: every maximal run of characters outside
  \<open>[a-z0-9]\<close> becomes one hyphen.\<close>

function sub_runs :: "string \<Rightarrow> string" where
  "sub_runs [] = []"
| "sub_runs (c # cs) =
     (if slug_alnum c then c # sub_runs cs
      else CHR ''-'' # sub_runs (dropWhile (\<lambda>x. \<not> slug_alnum x) cs))"
  by pat_completeness auto
termination
  by (relation "measure length") (auto simp: length_dropWhile_le less_Suc_eq_le)

definition slugify :: "string \<Rightarrow> string" where
  "slugify v =
     (let v1 = strip (lower v);
          v2 = sub_runs v1;
          v3 = strip_chars (\<lambda>c. c = CHR ''-'') v2
      in if v3 = [] then ''cert'' else v3)"

text \<open>A valid slug: non-empty, lowercase alphanumerics and single hyphens, no hyphen
  at either end.\<close>

definition valid_slug :: "string \<Rightarrow> bool" where
  "valid_slug s = (s \<noteq> [] \<and> list_all (\<lambda>c. slug_alnum c \<or> c = CHR ''-'') s
     \<and> \<not> contains s ''--'' \<and> hd s \<noteq> CHR ''-'' \<and> last s \<noteq> CHR ''-'')"

text \<open>
  \<^verbatim>\<open>
  def unique_id(base: str, used: set[str]) -> str:
      if base not in used:
          used.add(base)
          return base
      idx = 2
      while f"{base}-{idx}" in used:
          idx += 1
      candidate = f"{base}-{idx}"
      used.add(candidate)
      return candidate
  \<close>
  The set \<open>used\<close> is mutated in place; the model returns the identifier together
  with the updated set. A Python set is finite, hence \<open>string fset\<close>.
\<close>

definition suffixed :: "string \<Rightarrow> nat \<Rightarrow> string" where
  "suffixed base idx = base @ ''-'' @ str_nat idx"

function unique_id_loop :: "string \<Rightarrow> string fset \<Rightarrow> nat \<Rightarrow> nat" where
  "unique_id_loop base used idx =
     (if suffixed base idx |\<in>| used then unique_id_loop base used (idx + 1) else idx)"
  by pat_completeness auto
termination
proof (relation "measure (\<lambda>(base, used, idx). card {k. idx \<le> k \<and> suffixed base k |\<in>| used})")
  show "wf (measure (\<lambda>(base, used, idx). card {k. idx \<le> k \<and> suffixed base k |\<in>| used}))"
    by simp
next
  fix base :: string and used :: "string fset" and idx :: nat
  assume hit: "suffixed base idx |\<in>| used"
  have dig: "a = b" if "a < 10" "b < 10" "digit_char a = digit_char b" for a b
    using that unfolding digit_char_def digits_def
    by (subst (asm) nth_eq_iff_index_eq) simp_all
  have inj_nat: "n = m" if "str_nat n = str_nat m" for n m
    using that
  proof (induction n arbitrary: m rule: str_nat.induct)
    case (1 n)
    have ne: "str_nat k \<noteq> []" for k by (subst str_nat.simps) simp
    show ?case
    proof (cases "n < 10")
      case True
      show ?thesis
      proof (cases "m < 10")
        case True
        with \<open>n < 10\<close> 1(2) show ?thesis
          by (subst (asm) str_nat.simps, subst (asm) (2) str_nat.simps) (simp add: dig)
      next
        case False
        with \<open>n < 10\<close> 1(2) ne [of "m div 10"] show ?thesis
          by (subst (asm) str_nat.simps, subst (asm) (2) str_nat.simps) simp
      qed
    next
      case False
      show ?thesis
      proof (cases "m < 10")
        case True
        with False 1(2) ne [of "n div 10"] show ?thesis
          by (subst (asm) str_nat.simps, subst (asm) (2) str_nat.simps) simp
      next
        case mf: False
        from False mf 1(2) have "str_nat (n div 10) = str_nat (m div 10)"
          and d: "digit_char (n mod 10) = digit_char (m mod 10)"
          by (subst (asm) str_nat.simps, subst (asm) (2) str_nat.simps, simp)+
        then have "n div 10 = m div 10" using 1(1) False by blast
        moreover have "n mod 10 = m mod 10" using d by (intro dig) simp_all
        ultimately show ?thesis by (metis div_mult_mod_eq)
      qed
    qed
  qed
  have "inj (suffixed base)"
    by (rule injI) (auto simp: suffixed_def dest: inj_nat)
  then have fin: "finite {k. suffixed base k |\<in>| used}"
    using finite_vimageI [of "fset used" "suffixed base"] by (simp add: vimage_def)
  have sub: "{k. idx + 1 \<le> k \<and> suffixed base k |\<in>| used}
      \<subset> {k. idx \<le> k \<and> suffixed base k |\<in>| used}"
  proof
    show "{k. idx + 1 \<le> k \<and> suffixed base k |\<in>| used}
      \<subseteq> {k. idx \<le> k \<and> suffixed base k |\<in>| used}" by auto
    have "idx \<in> {k. idx \<le> k \<and> suffixed base k |\<in>| used}" using hit by simp
    moreover have "idx \<notin> {k. idx + 1 \<le> k \<and> suffixed base k |\<in>| used}" by simp
    ultimately show "{k. idx + 1 \<le> k \<and> suffixed base k |\<in>| used}
      \<noteq> {k. idx \<le> k \<and> suffixed base k |\<in>| used}" by blast
  qed
  have "finite {k. idx \<le> k \<and> suffixed base k |\<in>| used}"
    using fin by simp
  then have "card {k. idx + 1 \<le> k \<and> suffixed base k |\<in>| used}
      < card {k. idx \<le> k \<and> suffixed base k |\<in>| used}"
    using sub by (rule psubset_card_mono)
  then show "((base, used, idx + 1), (base, used, idx))
      \<in> measure (\<lambda>(base, used, idx). card {k. idx \<le> k \<and> suffixed base k |\<in>| used})"
    by simp
qed

declare unique_id_loop.simps [simp del]

definition unique_id :: "string \<Rightarrow> string fset \<Rightarrow> string \<times> string fset" where
  "unique_id base used =
     (if base |\<notin>| used then (base, finsert base used)
      else let idx = unique_id_loop base used 2;
               candidate = suffixed base idx
           in (candidate, finsert candidate used))"


section \<open>The importer: providers, tooltips and prices\<close>

text \<open>\<open>s.replace(old, new)\<close>: every occurrence of \<open>old\<close>, from the left, without
  overlap. (For an empty \<open>old\<close> Python inserts \<open>new\<close> around every character.)\<close>

function replace_all :: "string \<Rightarrow> string \<Rightarrow> string \<Rightarrow> string" where
  "replace_all s old new =
     (if old = [] then new @ concat (map (\<lambda>c. c # new) s)
      else if s = [] then []
      else if prefix old s then new @ replace_all (drop (length old) s) old new
      else hd s # replace_all (tl s) old new)"
  by pat_completeness auto
termination
  by (relation "measure (\<lambda>(s, old, new). length s)") (auto simp: neq_Nil_conv)

declare replace_all.simps [simp del]

text \<open>\<open>s.split(sep)\<close> for a one-character separator: the pieces between the
  separators, empty pieces included.\<close>

fun split_on :: "char \<Rightarrow> string \<Rightarrow> string list" where
  "split_on sep [] = [[]]"
| "split_on sep (c # cs) =
     (if c = sep then [] # split_on sep cs
      else (case split_on sep cs of
              [] \<Rightarrow> [[c]]
            | piece # pieces \<Rightarrow> (c # piece) # pieces))"

text \<open>\<open>s.split()\<close>: the maximal runs of characters that are not whitespace.\<close>

function split_ws :: "string \<Rightarrow> string list" where
  "split_ws s =
     (let t = dropWhile is_space s
      in if t = [] then []
         else takeWhile (\<lambda>c. \<not> is_space c) t # split_ws (dropWhile (\<lambda>c. \<not> is_space c) t))"
  by pat_completeness auto
termination
proof (relation "measure length")
  show "wf (measure length)" by simp
next
  fix s t :: string
  assume t: "t = dropWhile is_space s" and ne: "t \<noteq> []"
  then have "\<not> is_space (hd t)" using hd_dropWhile [of is_space s] by simp
  with ne have "length (dropWhile (\<lambda>c. \<not> is_space c) t) < length t"
    by (cases t) (auto simp: less_Suc_eq_le length_dropWhile_le)
  moreover have "length t \<le> length s" unfolding t by (rule length_dropWhile_le)
  ultimately show "(dropWhile (\<lambda>c. \<not> is_space c) t, s) \<in> measure length" by simp
qed

declare split_ws.simps [simp del]

text \<open>\<open>s.title()\<close>: a letter is put in upper case when it follows a character that is
  not a letter (or starts the string), in lower case otherwise.\<close>

definition is_alpha :: "char \<Rightarrow> bool" where
  "is_alpha c = (is_upper c \<or> is_lower c)"

fun title_from :: "bool \<Rightarrow> string \<Rightarrow> string" where
  "title_from previous_is_cased [] = []"
| "title_from previous_is_cased (c # cs) =
     (if is_alpha c
      then (if previous_is_cased then lower_char c else upper_char c) # title_from True cs
      else c # title_from False cs)"

definition title :: "string \<Rightarrow> string" where
  "title s = title_from False s"

text \<open>
  \<open>urlparse(url).netloc\<close>, after \<open>urllib.parse.urlsplit\<close>: leading control characters
  and spaces are dropped, tabs and line breaks removed; a scheme is a letter followed
  by letters, digits, \<open>+\<close>, \<open>-\<close> or \<open>.\<close> up to the first colon; if the rest starts with
  \<open>//\<close>, the netloc runs up to the first \<open>/\<close>, \<open>?\<close> or \<open>#\<close>. A netloc with only one of the
  square brackets raises \<open>ValueError\<close>. With both brackets the library goes on to
  validate the bracketed IP literal; that validation is not modelled, and the model
  raises \<open>ValueError\<close> for every netloc that holds a square bracket.
\<close>

definition is_scheme_char :: "char \<Rightarrow> bool" where
  "is_scheme_char c = (is_alpha c \<or> is_digit c \<or> c \<in> set ''+-.'')"

definition strip_scheme :: "string \<Rightarrow> string" where
  "strip_scheme url =
     (let scheme = takeWhile (\<lambda>c. c \<noteq> CHR '':'') url
      in if CHR '':'' \<in> set url \<and> scheme \<noteq> [] \<and> is_alpha (hd url) \<and> list_all is_scheme_char scheme
         then drop (length scheme + 1) url
         else url)"

definition netloc_of :: "string \<Rightarrow> py_error + string" where
  "netloc_of url0 =
     (let url1 = dropWhile (\<lambda>c. (of_char c :: nat) \<le> 32) url0;
          url2 = filter (\<lambda>c. c \<notin> set [CHR 0x09, CHR 0x0D, CHR 0x0A]) url1;
          url3 = strip_scheme url2
      in if take 2 url3 = ''//''
         then (let netloc = takeWhile (\<lambda>c. c \<notin> set ''/?#'') (drop 2 url3)
               in if CHR ''['' \<in> set netloc \<or> CHR '']'' \<in> set netloc then Inl ValueError
                  else Inr netloc)
         else Inr [])"

definition HOST_PROVIDER_MAP :: "(string \<times> string) list" where
  "HOST_PROVIDER_MAP =
     [(''offensive-security.com'', ''OffSec''),
      (''giac.org'', ''GIAC''),
      (''isaca.org'', ''ISACA''),
      (''isc2.org'', ''ISC2''),
      (''comptia.org'', ''CompTIA''),
      (''learn.microsoft.com'', ''Microsoft''),
      (''aws.amazon.com'', ''AWS''),
      (''cloud.google.com'', ''Google Cloud''),
      (''cisco.com'', ''Cisco''),
      (''hackthebox.com'', ''Hack The Box''),
      (''academy.hackthebox.com'', ''Hack The Box''),
      (''certifications.tcm-sec.com'', ''TCM Security''),
      (''tcm-sec.com'', ''TCM Security''),
      (''pecb.com'', ''PECB''),
      (''iapp.org'', ''IAPP''),
      (''linuxfoundation.org'', ''Linux Foundation''),
      (''training.linuxfoundation.org'', ''Linux Foundation''),
      (''sans.org'', ''SANS''),
      (''sabsa.org'', ''SABSA''),
      (''pmi.org'', ''PMI''),
      (''axelos.com'', ''Axelos''),
      (''fortinet.com'', ''Fortinet''),
      (''paloaltonetworks.com'', ''Palo Alto Networks''),
      (''ec-council.org'', ''EC-Council''),
      (''elearnsecurity.com'', ''INE''),
      (''ine.com'', ''INE''),
      (''securityblue.team'', ''Security Blue Team''),
      (''cyberdefenders.org'', ''CyberDefenders''),
      (''scrum.org'', ''Scrum.org''),
      (''zachman.com'', ''Zachman'')]"

text \<open>
  \<^verbatim>\<open>
  def parse_provider(url: str) -> str:
      try:
          host = urlparse(url).netloc.lower()
      except Exception:
          return "Unknown"
      host = host.replace("www.", "")
      for key, provider in HOST_PROVIDER_MAP.items():
          if host == key or host.endswith(f".{key}"):
              return provider
      parts = host.split(".")
      if len(parts) >= 2:
          base = parts[-2]
      else:
          base = host
      return base.replace("-", " ").title() if base else "Unknown"
  \<close>
\<close>

definition host_matches :: "string \<Rightarrow> string \<Rightarrow> bool" where
  "host_matches host key = (host = key \<or> suffix (''.'' @ key) host)"

definition provider_of_host :: "string \<Rightarrow> string" where
  "provider_of_host host0 =
     (let host = replace_all host0 ''www.'' []
      in case find (\<lambda>entry. host_matches host (fst entry)) HOST_PROVIDER_MAP of
           Some entry \<Rightarrow> snd entry
         | None \<Rightarrow>
             (let parts = split_on CHR ''.'' host;
                  base = (if length parts \<ge> 2 then parts ! (length parts - 2) else host)
              in if base \<noteq> [] then title (replace_all base ''-'' '' '') else ''Unknown''))"

definition parse_provider :: "string \<Rightarrow> string" where
  "parse_provider url =
     (case netloc_of url of
        Inl e \<Rightarrow> ''Unknown''
      | Inr netloc \<Rightarrow> provider_of_host (lower netloc))"

text \<open>
  \<^verbatim>\<open>
  def normalize_lines(tooltip: str) -> List[str]:
      tooltip = tooltip.replace("\\n", "\n")
      lines: List[str] = []
      for raw in tooltip.split("\n"):
          line = " ".join(raw.split()).strip()
          if line:
              lines.append(line)
      return lines
  \<close>
  The first replacement turns the two characters backslash and \<open>n\<close> into a line
  break.
\<close>

definition normalize_lines :: "string \<Rightarrow> string list" where
  "normalize_lines tooltip =
     filter (\<lambda>line. line \<noteq> [])
       (map (\<lambda>raw. strip (join '' '' (split_ws raw)))
          (split_on (CHR 0x0A) (replace_all tooltip [CHR 0x5C, CHR ''n''] [CHR 0x0A])))"

text \<open>
  \<open>int(float(text))\<close> for \<open>text\<close> made of digits with an optional fraction, as the
  price pattern yields it. \<open>float\<close> rounds the decimal number to the nearest double
  (53 bits of mantissa, ties to even) and overflows to infinity from \<open>2 ^ 1024\<close> on,
  which \<open>int\<close> refuses with \<open>OverflowError\<close>; \<open>int\<close> then truncates. The number is
  \<open>n / 10 ^ k\<close> for the digits \<open>n\<close> and \<open>k\<close> digits of fraction.
\<close>

fun bit_length :: "nat \<Rightarrow> nat" where
  "bit_length n = (if n = 0 then 0 else Suc (bit_length (n div 2)))"

declare bit_length.simps [simp del]

definition binary_exponent :: "nat \<Rightarrow> nat \<Rightarrow> int" where
  "binary_exponent n d =
     (let a = int (bit_length n); b = int (bit_length d)
      in if a \<ge> b
         then (if n \<ge> d * 2 ^ nat (a - b) then a - b else a - b - 1)
         else (if n * 2 ^ nat (b - a) \<ge> d then a - b else a - b - 1))"

definition round_half_even :: "nat \<Rightarrow> nat \<Rightarrow> nat" where
  "round_half_even num den =
     (let q = num div den; r = num mod den
      in if 2 * r > den \<or> (2 * r = den \<and> odd q) then q + 1 else q)"

definition int_of_float_of :: "nat \<Rightarrow> nat \<Rightarrow> py_error + int" where
  "int_of_float_of n k =
     (if n = 0 then Inr 0
      else (let d = 10 ^ k;
                e = binary_exponent n d;
                mantissa = (if e \<le> 52 then round_half_even (n * 2 ^ nat (52 - e)) d
                            else round_half_even n (d * 2 ^ nat (e - 52)))
            in if e \<ge> 1024 \<or> (e = 1023 \<and> mantissa = 2 ^ 53) then Inl OverflowError
               else if e \<ge> 52 then Inr (int (mantissa * 2 ^ nat (e - 52)))
               else Inr (int (mantissa div 2 ^ nat (52 - e)))))"

definition int_float :: "string \<Rightarrow> py_error + int" where
  "int_float text =
     (let whole = takeWhile (\<lambda>c. c \<noteq> CHR ''.'') text;
          fraction = drop (length whole + 1) text
      in int_of_float_of (nat_of_digits (whole @ fraction)) (length fraction))"

text \<open>
  \<open>re.search(r"\$\s*([0-9][0-9,]*(?:\.[0-9]+)?)", label)\<close>: group 1 of the leftmost
  match, if there is one. After a dollar sign and any whitespace, digits and commas
  are taken as long as they last, then a dot with at least one digit if it follows.
\<close>

definition amount_at :: "string \<Rightarrow> string" where
  "amount_at s =
     (let whole = takeWhile (\<lambda>c. is_digit c \<or> c = CHR '','') s;
          rest = drop (length whole) s;
          fraction = takeWhile is_digit (tl rest)
      in if rest \<noteq> [] \<and> hd rest = CHR ''.'' \<and> fraction \<noteq> [] then whole @ ''.'' @ fraction
         else whole)"

fun amount_match :: "string \<Rightarrow> string option" where
  "amount_match [] = None"
| "amount_match (c # cs) =
     (let after = dropWhile is_space cs
      in if c = CHR ''$'' \<and> after \<noteq> [] \<and> is_digit (hd after) then Some (amount_at after)
         else amount_match cs)"

text \<open>
  The price cues of \<open>extract_price\<close>, searched without regard to case:
  \<open>(\$|\<euro>|\<pounds>|free|subscription|travel|member|exam)\<close>. The euro and pound signs are
  given in UTF-8.
\<close>

definition price_cues :: "string list" where
  "price_cues =
     [''$'', [CHR 0xE2, CHR 0x82, CHR 0xAC], [CHR 0xC2, CHR 0xA3],
      ''free'', ''subscription'', ''travel'', ''member'', ''exam'']"

definition has_price_cue :: "string \<Rightarrow> bool" where
  "has_price_cue line = list_ex (\<lambda>cue. contains (lower line) cue) price_cues"

text \<open>
  \<^verbatim>\<open>
  def extract_price(lines: List[str]) -> Tuple[str, int, str]:
      if not lines:
          return "Price not listed", 0, "estimated"
      price_lines = [line for line in lines[1:] if re.search(..., line, flags=re.IGNORECASE)]
      if not price_lines and len(lines) > 1:
          price_lines = [lines[1]]
      if not price_lines:
          return "Price not listed", 0, "estimated"
      label = " | ".join(price_lines[:2])
      amount_match = re.search(r"\$\s*([0-9][0-9,]*(?:\.[0-9]+)?)", label)
      amount = 0
      if amount_match:
          amount = int(float(amount_match.group(1).replace(",", "")))
      confidence = "from-original-tooltip"
      return label, amount, confidence
  \<close>
\<close>

definition extract_price :: "string list \<Rightarrow> py_error + (string \<times> int \<times> string)" where
  "extract_price lines =
     (if lines = [] then Inr (''Price not listed'', 0, ''estimated'')
      else (let found = filter has_price_cue (tl lines);
                price_lines = (if found = [] \<and> length lines > 1 then [lines ! 1] else found)
            in if price_lines = [] then Inr (''Price not listed'', 0, ''estimated'')
               else (let label = join '' | '' (take 2 price_lines)
                     in case amount_match label of
                          None \<Rightarrow> Inr (label, 0, ''from-original-tooltip'')
                        | Some text \<Rightarrow>
                            (case int_float (replace_all text '','' []) of
                               Inl e \<Rightarrow> Inl e
                             | Inr amount \<Rightarrow> Inr (label, amount, ''from-original-tooltip'')))))"

text \<open>
  Provider inference as the specification words it, for comparison with
  \<open>parse_provider\<close>: the host is the lowercased netloc with a literal \<open>www.\<close> prefix
  stripped; a table key that the host equals or ends with after a dot gives the
  provider; otherwise the title-cased second-level label with hyphens as spaces; a URL
  that cannot be parsed, or has no such label, gives \<open>Unknown\<close>.
\<close>

definition strip_www_prefix :: "string \<Rightarrow> string" where
  "strip_www_prefix host = (if prefix ''www.'' host then drop 4 host else host)"

definition parse_provider_spec :: "string \<Rightarrow> string" where
  "parse_provider_spec url =
     (case netloc_of url of
        Inl e \<Rightarrow> ''Unknown''
      | Inr netloc \<Rightarrow>
          (let host = strip_www_prefix (lower netloc)
           in case find (\<lambda>entry. host_matches host (fst entry)) HOST_PROVIDER_MAP of
                Some entry \<Rightarrow> snd entry
              | None \<Rightarrow>
                  (let parts = split_on CHR ''.'' host;
                       base = (if length parts \<ge> 2 then parts ! (length parts - 2) else host)
                   in if base \<noteq> [] then title (replace_all base ''-'' '' '') else ''Unknown'')))"

section \<open>The importer: building the records\<close>

text \<open>
  A raw record of the source dataset, with the fields that decide the id, the
  provider, the description and the price of the canonical record; they are taken as
  strings. The categories and the skill level, and the fields of the canonical record
  derived from them alone (domain, sub-areas, tracks, level, roles, tags and so on),
  are left out: nothing below depends on them. A record whose \<open>content\<close> is missing
  or whose \<open>skillLevel\<close> is no number makes \<open>build_cert\<close> raise, which ends the run
  before any file is written; the model covers the other runs.
\<close>

record raw_record =
  raw_content :: string
  raw_tooltiptext :: string
  raw_href :: string

record cert =
  c_id :: string
  c_name :: string
  c_provider :: string
  c_url :: string
  c_description :: string
  c_summary :: string
  c_price_usd :: int
  c_price_label :: string
  c_price_confidence :: string
  c_tooltip_legacy :: string

text \<open>
  \<open>build_cert(record, used_ids)\<close>: the canonical record and the updated set of used
  ids. \<open>extract_price\<close> is called before \<open>unique_id\<close>; when it raises, so does
  \<open>build_cert\<close>.
\<close>

definition build_cert :: "raw_record \<Rightarrow> string fset \<Rightarrow> py_error + (cert \<times> string fset)" where
  "build_cert record used_ids =
     (let tooltip_lines = normalize_lines (raw_tooltiptext record);
          description = (if tooltip_lines \<noteq> [] then hd tooltip_lines else raw_content record)
      in case extract_price tooltip_lines of
           Inl e \<Rightarrow> Inl e
         | Inr price \<Rightarrow>
             (let assigned = unique_id (slugify (raw_content record)) used_ids
              in Inr (\<lparr>c_id = fst assigned,
                       c_name = strip (raw_content record),
                       c_provider = parse_provider (raw_href record),
                       c_url = strip (raw_href record),
                       c_description = description,
                       c_summary = description,
                       c_price_usd = fst (snd price),
                       c_price_label = fst price,
                       c_price_confidence = snd (snd price),
                       c_tooltip_legacy = join '' | '' (take 3 tooltip_lines)\<rparr>,
                      snd assigned)))"






text \<open>
  \<open>main\<close> of the importer (\<open>main_import\<close> here): the records in the order they are
  built, the files written (name and content, in the order of writing) and the sorted
  file list of the index.
\<close>

record import_result =
  certifications :: "cert list"
  written :: "(string \<times> cert) list"
  index_files :: "string list"


text \<open>The tooltip of the specification's example, with the line break as a character
  and as the two characters backslash and \<open>n\<close>, and a raw record that carries it.\<close>

definition example_tooltip :: string where
  "example_tooltip = ''CompTIA Security+'' @ [CHR 0x0A] @ ''$370 exam voucher''"

definition example_tooltip_escaped :: string where
  "example_tooltip_escaped = ''CompTIA Security+'' @ [CHR 0x5C, CHR ''n''] @ ''$370 exam voucher''"

definition example_raw_record :: raw_record where
  "example_raw_record =
     \<lparr>raw_content = ''Security+'', raw_tooltiptext = example_tooltip,
      raw_href = ''https://www.comptia.org/certifications/security''\<rparr>"


section \<open>The validator\<close>

text \<open>The constant tables of \<^verbatim>\<open>validate_catalog.py\<close>.\<close>

definition VALID_LEVELS :: "string list" where
  "VALID_LEVELS = [''foundational'', ''intermediate'', ''advanced'', ''expert'']"

definition VALID_STATUS :: "string list" where
  "VALID_STATUS = [''active'', ''beta'', ''retired'']"

definition VALID_PRICE_CONFIDENCE :: "string list" where
  "VALID_PRICE_CONFIDENCE = [''from-original-tooltip'', ''estimated'']"

definition VALID_DOMAINS :: "string list" where
  "VALID_DOMAINS =
     [''Communication and Network Security'', ''IAM'',
      ''Security Architecture and Engineering'', ''Asset Security'',
      ''Security and Risk Management'', ''Security Assessment and Testing'',
      ''Software Security'', ''Security Operations'']"

definition VALID_SUB_AREAS :: "string list" where
  "VALID_SUB_AREAS =
     [''Cloud/SysOps'', ''*nix'', ''ICS/IoT'', ''GRC'', ''Forensics'',
      ''Incident Handling'', ''Penetration Testing'', ''Exploitation'']"

definition VALID_ROLE_GROUPS :: "string list" where
  "VALID_ROLE_GROUPS =
     [''Network'', ''Asset'', ''Engineer'', ''Management'', ''Testing'', ''Software'',
      ''Blue Team Ops'', ''Red Team Ops'', ''IAM'']"

definition DOMAIN_SUBAREA_MAP :: "(string \<times> string list) list" where
  "DOMAIN_SUBAREA_MAP =
     [(''Communication and Network Security'', []),
      (''IAM'', []),
      (''Security Architecture and Engineering'', [''Cloud/SysOps'', ''*nix'', ''ICS/IoT'']),
      (''Asset Security'', []),
      (''Security and Risk Management'', [''GRC'']),
      (''Security Assessment and Testing'', []),
      (''Software Security'', []),
      (''Security Operations'',
         [''Forensics'', ''Incident Handling'', ''Penetration Testing'', ''Exploitation''])]"

definition UNKNOWN_PRICE_LABEL_HINTS :: "string list" where
  "UNKNOWN_PRICE_LABEL_HINTS =
     [''not listed'', ''unknown'', ''tbd'', ''see provider'', ''n/a'', ''varies'']"

definition REQUIRED_KEYS :: "string list" where
  "REQUIRED_KEYS =
     [''id'', ''name'', ''provider'', ''cert_code'', ''url'', ''domain_area'', ''sub_areas'',
      ''tracks'', ''level'', ''status'', ''ai_focus'', ''introduced_year'', ''last_updated'',
      ''delivery'', ''renewal'', ''language'', ''role_groups'', ''roles'', ''tags'',
      ''prerequisites'', ''description'', ''summary'', ''price_usd'', ''price_label'',
      ''price_confidence'', ''tooltip_legacy'']"

text \<open>\<open>URL_RE = ^https?://\<close> and \<open>ISO_DATE_RE = ^\d{4}-\d{2}-\d{2}$\<close>, both used with
  \<open>match\<close>; \<open>$\<close> also matches just before a final newline.\<close>

definition url_match :: "string \<Rightarrow> bool" where
  "url_match s = (prefix ''http://'' s \<or> prefix ''https://'' s)"

definition iso_date_shape :: "string \<Rightarrow> bool" where
  "iso_date_shape s =
     (length s = 10 \<and> list_all is_digit (take 4 s) \<and> s ! 4 = CHR ''-''
      \<and> list_all is_digit (take 2 (drop 5 s)) \<and> s ! 7 = CHR ''-''
      \<and> list_all is_digit (drop 8 s))"

definition iso_date_match :: "string \<Rightarrow> bool" where
  "iso_date_match s =
     (iso_date_shape s \<or> (length s = 11 \<and> last s = CHR 0x0A \<and> iso_date_shape (butlast s)))"

text \<open>\<open>date.fromisoformat\<close> on a string of the shape \<open>YYYY-MM-DD\<close> succeeds when the
  year is at least 1 and the day exists in the month.\<close>

definition is_leap :: "nat \<Rightarrow> bool" where
  "is_leap y = (y mod 4 = 0 \<and> (y mod 100 \<noteq> 0 \<or> y mod 400 = 0))"

definition days_in_month :: "nat \<Rightarrow> nat \<Rightarrow> nat" where
  "days_in_month y m =
     (if m = 2 then (if is_leap y then 29 else 28)
      else if m \<in> {4, 6, 9, 11} then 30 else 31)"

definition valid_calendar_date :: "string \<Rightarrow> bool" where
  "valid_calendar_date s =
     (let y = nat_of_digits (take 4 s);
          m = nat_of_digits (take 2 (drop 5 s));
          d = nat_of_digits (take 2 (drop 8 s))
      in iso_date_shape s \<and> 1 \<le> y \<and> 1 \<le> m \<and> m \<le> 12 \<and> 1 \<le> d \<and> d \<le> days_in_month y m)"

text \<open>\<open>fail(message, errors)\<close> appends one message; a check that may fail yields the
  list of messages it appends.\<close>

definition fail_if :: "bool \<Rightarrow> string \<Rightarrow> string list" where
  "fail_if b message = (if b then [message] else [])"

text \<open>A \<open>for\<close> loop over a list whose body may raise: the messages of all elements in
  order, or the first exception.\<close>

fun for_each :: "('a \<Rightarrow> py_error + string list) \<Rightarrow> 'a list \<Rightarrow> py_error + string list" where
  "for_each f [] = Inr []"
| "for_each f (x # xs) =
     (case f x of
        Inl e \<Rightarrow> Inl e
      | Inr ms \<Rightarrow> (case for_each f xs of Inl e \<Rightarrow> Inl e | Inr rest \<Rightarrow> Inr (ms @ rest)))"

text \<open>Sequencing of two checks: the second runs only if the first did not raise.\<close>

definition and_then :: "py_error + string list \<Rightarrow> py_error + string list \<Rightarrow> py_error + string list" where
  "and_then a b =
     (case a of
        Inl e \<Rightarrow> Inl e
      | Inr ms \<Rightarrow> (case b of Inl e \<Rightarrow> Inl e | Inr rest \<Rightarrow> Inr (ms @ rest)))"

text \<open>A value between single quotes, as the messages print it.\<close>

definition quoted :: "string \<Rightarrow> string" where
  "quoted s = [CHR 0x27] @ s @ [CHR 0x27]"

text \<open>
  The body of the loop over the files in \<open>main\<close> (source lines 125 to 268) is modelled
  check by check, in the order of the source. Each check yields the messages it
  appends to \<open>errors\<close>, or the exception it raises.

  Lines 125 to 127: the required keys that the mapping lacks, sorted.
\<close>

definition check_missing :: "string \<Rightarrow> (string \<times> yval) list \<Rightarrow> string list" where
  "check_missing name p =
     (let missing = sort (filter (\<lambda>k. k \<notin> set (map fst p)) REQUIRED_KEYS)
      in fail_if (missing \<noteq> []) (name @ '': missing keys '' @ join '', '' missing))"

text \<open>Lines 129 to 136: the id against the filename stem and against the ids seen so
  far; the id is added to \<open>seen_ids\<close> in every case.\<close>

definition cert_id_of :: "(string \<times> yval) list \<Rightarrow> string" where
  "cert_id_of p = py_str (get p ''id'' (YStr []))"

definition check_id :: "string \<Rightarrow> (string \<times> yval) list \<Rightarrow> string fset \<Rightarrow> string list" where
  "check_id name p seen_ids =
     (let file_id = stem name; cert_id = cert_id_of p
      in fail_if (cert_id \<noteq> file_id)
           (name @ '': id '' @ quoted cert_id @ '' must match filename '' @ quoted file_id)
         @ fail_if (cert_id |\<in>| seen_ids) (name @ '': duplicate id '' @ quoted cert_id))"

text \<open>Lines 138 and 139.\<close>

definition check_domain :: "string \<Rightarrow> (string \<times> yval) list \<Rightarrow> py_error + string list" where
  "check_domain name p =
     (case in_strs (get p ''domain_area'' YNone) VALID_DOMAINS of
        Inl e \<Rightarrow> Inl e
      | Inr ok \<Rightarrow> Inr (fail_if (\<not> ok)
          (name @ '': invalid domain_area '' @ quoted (py_str (get p ''domain_area'' YNone)))))"

text \<open>Lines 141 to 168. \<open>DOMAIN_SUBAREA_MAP.get(domain, set())\<close> is the allowed set of
  the domain, empty for a domain that is not a key.\<close>

definition allowed_for :: "yval \<Rightarrow> py_error + string list" where
  "allowed_for domain =
     (if hashable domain
      then Inr (case domain of
                  YStr d \<Rightarrow> (case map_of DOMAIN_SUBAREA_MAP d of Some a \<Rightarrow> a | None \<Rightarrow> [])
                | _ \<Rightarrow> [])
      else Inl TypeError)"

definition sub_area_valid :: "string \<Rightarrow> yval \<Rightarrow> py_error + string list" where
  "sub_area_valid name sub_area =
     (case in_strs sub_area VALID_SUB_AREAS of
        Inl e \<Rightarrow> Inl e
      | Inr ok \<Rightarrow> Inr (fail_if (\<not> ok) (name @ '': invalid sub_area '' @ quoted (py_str sub_area))))"

definition sub_area_compatible :: "string \<Rightarrow> yval \<Rightarrow> string list \<Rightarrow> yval \<Rightarrow> py_error + string list" where
  "sub_area_compatible name domain allowed sub_area =
     (case in_strs sub_area allowed of
        Inl e \<Rightarrow> Inl e
      | Inr ok \<Rightarrow> Inr (fail_if (\<not> ok)
          (name @ '': sub_area '' @ quoted (py_str sub_area) @ '' is incompatible with ''
             @ ''domain_area '' @ quoted (py_str domain))))"

definition check_compatible :: "string \<Rightarrow> yval \<Rightarrow> yval list \<Rightarrow> py_error + string list" where
  "check_compatible name domain sub_areas =
     (case allowed_for domain of
        Inl e \<Rightarrow> Inl e
      | Inr allowed \<Rightarrow>
          if allowed \<noteq> [] then for_each (sub_area_compatible name domain allowed) sub_areas
          else Inr (fail_if (sub_areas \<noteq> [])
            (name @ '': domain_area '' @ quoted (py_str domain) @ '' does not define sub-areas, ''
               @ ''so sub_areas must be empty'')))"

definition check_sub_areas :: "string \<Rightarrow> (string \<times> yval) list \<Rightarrow> py_error + string list" where
  "check_sub_areas name p =
     (case get p ''sub_areas'' YNone of
        YList sub_areas \<Rightarrow>
          and_then (for_each (sub_area_valid name) sub_areas)
            (check_compatible name (get p ''domain_area'' YNone) sub_areas)
      | _ \<Rightarrow> Inr [name @ '': sub_areas must be a list''])"

text \<open>Lines 170 to 176.\<close>

definition role_group_valid :: "string \<Rightarrow> yval \<Rightarrow> py_error + string list" where
  "role_group_valid name role_group =
     (case in_strs role_group VALID_ROLE_GROUPS of
        Inl e \<Rightarrow> Inl e
      | Inr ok \<Rightarrow> Inr (fail_if (\<not> ok) (name @ '': invalid role_group '' @ quoted (py_str role_group))))"

definition check_role_groups :: "string \<Rightarrow> (string \<times> yval) list \<Rightarrow> py_error + string list" where
  "check_role_groups name p =
     (case get p ''role_groups'' YNone of
        YList role_groups \<Rightarrow>
          if role_groups = [] then Inr [name @ '': role_groups must be a non-empty list'']
          else for_each (role_group_valid name) role_groups
      | _ \<Rightarrow> Inr [name @ '': role_groups must be a non-empty list''])"

text \<open>Lines 178 to 182.\<close>

definition check_level :: "string \<Rightarrow> (string \<times> yval) list \<Rightarrow> py_error + string list" where
  "check_level name p =
     (case in_strs (get p ''level'' YNone) VALID_LEVELS of
        Inl e \<Rightarrow> Inl e
      | Inr ok \<Rightarrow> Inr (fail_if (\<not> ok)
          (name @ '': invalid level '' @ quoted (py_str (get p ''level'' YNone)))))"

definition check_status :: "string \<Rightarrow> (string \<times> yval) list \<Rightarrow> py_error + string list" where
  "check_status name p =
     (case in_strs (get p ''status'' YNone) VALID_STATUS of
        Inl e \<Rightarrow> Inl e
      | Inr ok \<Rightarrow> Inr (fail_if (\<not> ok)
          (name @ '': invalid status '' @ quoted (py_str (get p ''status'' YNone)))))"

text \<open>Lines 184 to 193: the types of \<open>ai_focus\<close>, \<open>introduced_year\<close> and \<open>price_usd\<close>.
  \<open>int\<close> of a value that is an integer cannot raise.\<close>

definition check_types :: "string \<Rightarrow> (string \<times> yval) list \<Rightarrow> string list" where
  "check_types name p =
     fail_if (\<not> is_bool (get p ''ai_focus'' YNone)) (name @ '': ai_focus must be boolean'')
     @ fail_if (\<not> is_int (get p ''introduced_year'' YNone))
         (name @ '': introduced_year must be integer'')
     @ (if \<not> is_int (get p ''price_usd'' YNone) then [name @ '': price_usd must be integer'']
        else (case py_int (get p ''price_usd'' YNone) of
                Inr n \<Rightarrow> fail_if (n < 0) (name @ '': price_usd must be >= 0'')
              | Inl e \<Rightarrow> []))"

text \<open>\<open>str(payload.get(key, "")).strip()\<close>\<close>

definition text_of :: "(string \<times> yval) list \<Rightarrow> string \<Rightarrow> string" where
  "text_of p key = strip (py_str (get p key (YStr [])))"

text \<open>Lines 195 to 228: description, price label, price confidence, url, date and
  summary. \<open>date.fromisoformat\<close> is inside a \<open>try\<close>, so none of these checks
  raises.\<close>

definition check_texts :: "string \<Rightarrow> (string \<times> yval) list \<Rightarrow> string list" where
  "check_texts name p =
     (let price_confidence = py_str (get p ''price_confidence'' (YStr []));
          last_updated = text_of p ''last_updated''
      in fail_if (text_of p ''description'' = []) (name @ '': description must not be empty'')
         @ fail_if (text_of p ''price_label'' = []) (name @ '': price_label must not be empty'')
         @ fail_if (price_confidence \<notin> set VALID_PRICE_CONFIDENCE)
             (name @ '': price_confidence '' @ quoted price_confidence @ '' must be one of ''
                @ join '', '' (sort VALID_PRICE_CONFIDENCE))
         @ fail_if (\<not> url_match (text_of p ''url''))
             (name @ '': url must start with http:// or https://'')
         @ (if \<not> iso_date_match last_updated
            then [name @ '': last_updated must use YYYY-MM-DD'']
            else fail_if (\<not> valid_calendar_date last_updated)
                   (name @ '': last_updated is not a valid calendar date''))
         @ fail_if (text_of p ''summary'' = []) (name @ '': summary must not be empty''))"

text \<open>Lines 230 to 245: the legacy tooltip must mention the name, the code or the
  description.\<close>

definition check_tooltip :: "string \<Rightarrow> (string \<times> yval) list \<Rightarrow> string list" where
  "check_tooltip name p =
     (let tooltip_legacy = text_of p ''tooltip_legacy'';
          cert_name = text_of p ''name'';
          cert_code = text_of p ''cert_code'';
          description_text = text_of p ''description'';
          tooltip_lower = lower tooltip_legacy;
          name_match = (cert_name \<noteq> [] \<and> contains tooltip_lower (lower cert_name));
          code_match = (cert_code \<noteq> [] \<and> contains tooltip_lower (lower cert_code));
          description_match =
            (description_text \<noteq> [] \<and> contains tooltip_lower (lower description_text))
      in if tooltip_legacy = [] then [name @ '': tooltip_legacy must not be empty'']
         else fail_if (\<not> name_match \<and> \<not> code_match \<and> \<not> description_match)
                (name @ '': tooltip_legacy should contain name, cert_code, or description''))"

text \<open>
  Lines 248 to 268: price coherence, for the integer \<open>price_usd\<close> and the stripped
  label.
  \<^verbatim>\<open>
  price_label_lower = price_label.lower()
  label_has_number_or_dollar = bool(re.search(r"\d", price_label)) or "$" in price_label
  if price_usd == 0 and label_has_number_or_dollar:
      if not any(marker in price_label_lower for marker in UNKNOWN_PRICE_LABEL_HINTS)
              and "free" not in price_label_lower:
          fail(...)
  if price_usd > 0 and not re.search(r"\d", price_label):
      fail(...)
  if "free" in price_label_lower and price_usd != 0:
      fail(...)
  \<close>
\<close>

definition price_zero_message :: "string \<Rightarrow> string" where
  "price_zero_message name =
     name @ '': price_usd is 0 but price_label looks numeric; ''
       @ ''set a numeric price_usd or use an unknown/free label''"

definition price_positive_message :: "string \<Rightarrow> string" where
  "price_positive_message name = name @ '': price_usd is > 0 but price_label has no numeric hint''"

definition price_free_message :: "string \<Rightarrow> string" where
  "price_free_message name = name @ '': price_label says free but price_usd is not 0''"

definition price_coherence :: "string \<Rightarrow> int \<Rightarrow> string \<Rightarrow> string list" where
  "price_coherence name price_usd price_label =
     (let price_label_lower = lower price_label;
          label_has_number_or_dollar =
            (list_ex is_digit price_label \<or> contains price_label ''$'')
      in fail_if (price_usd = 0 \<and> label_has_number_or_dollar
                  \<and> \<not> list_ex (\<lambda>marker. contains price_label_lower marker)
                         UNKNOWN_PRICE_LABEL_HINTS
                  \<and> \<not> contains price_label_lower ''free'')
           (price_zero_message name)
         @ fail_if (price_usd > 0 \<and> \<not> list_ex is_digit price_label)
             (price_positive_message name)
         @ fail_if (contains price_label_lower ''free'' \<and> price_usd \<noteq> 0)
             (price_free_message name))"

text \<open>Line 247: \<open>price_usd = int(payload.get("price_usd", 0))\<close> is outside any \<open>try\<close>;
  when the conversion raises, the exception leaves \<open>main\<close>.\<close>

definition check_price :: "string \<Rightarrow> (string \<times> yval) list \<Rightarrow> py_error + string list" where
  "check_price name p =
     (case py_int (get p ''price_usd'' (YInt 0)) of
        Inl e \<Rightarrow> Inl e
      | Inr price_usd \<Rightarrow> Inr (price_coherence name price_usd (text_of p ''price_label'')))"

text \<open>All checks of one record, in the order of the source: the messages appended for
  this file, or the exception that ends the run.\<close>

definition check_record :: "string \<Rightarrow> (string \<times> yval) list \<Rightarrow> string fset \<Rightarrow> py_error + string list" where
  "check_record name p seen_ids =
     and_then (Inr (check_missing name p @ check_id name p seen_ids))
    (and_then (check_domain name p)
    (and_then (check_sub_areas name p)
    (and_then (check_role_groups name p)
    (and_then (check_level name p)
    (and_then (check_status name p)
    (and_then (Inr (check_types name p @ check_texts name p @ check_tooltip name p))
              (check_price name p)))))))"

text \<open>
  The loop over the files. A file that does not decode to a mapping gets one message
  and is skipped (\<open>continue\<close>), before its id is looked at. The set \<open>seen_ids\<close> is
  threaded through the records.
\<close>

fun scan :: "(string \<times> yval) list \<Rightarrow> string fset \<Rightarrow> py_error + string list" where
  "scan [] seen_ids = Inr []"
| "scan ((name, YDict p) # files) seen_ids =
     and_then (check_record name p seen_ids) (scan files (finsert (cert_id_of p) seen_ids))"
| "scan ((name, payload) # files) seen_ids =
     and_then (Inr [name @ '': must contain a YAML object'']) (scan files seen_ids)"

text \<open>
  \<open>main\<close> takes the files that \<open>CERTS_DIR.glob("*.yaml")\<close> finds, each with the value
  its text decodes to, sorts them by name, and returns the list of messages with
  the exit code, or the exception that ended the run.
\<close>

definition main :: "(string \<times> yval) list \<Rightarrow> py_error + (string list \<times> int)" where
  "main dir =
     (let files = sort_key fst dir;
          errors0 = fail_if (files = []) ''No YAML files found in data/certifications''
      in case scan files {||} of
           Inl e \<Rightarrow> Inl e
         | Inr found \<Rightarrow>
             (let errors = errors0 @ found
              in Inr (errors, if errors \<noteq> [] then 1 else 0)))"











text \<open>A record that passes every check (one of the hand-authored records of the
  importer), and \<open>payload[key] = v\<close> on a decoded mapping, for concrete runs.\<close>

definition sample_record :: "(string \<times> yval) list" where
  "sample_record =
     [(''id'', YStr ''giac-goaa''), (''name'', YStr ''GIAC Offensive AI Analyst (GOAA)''),
      (''provider'', YStr ''GIAC''), (''cert_code'', YStr ''GOAA''),
      (''url'', YStr ''https://www.giac.org/certifications/offensive-ai-analyst-goaa/''),
      (''domain_area'', YStr ''Security Operations''),
      (''sub_areas'', YList [YStr ''Exploitation'']),
      (''tracks'', YList [YStr ''ai-security'', YStr ''offensive-security'', YStr ''exploitation'']),
      (''level'', YStr ''advanced''), (''status'', YStr ''active''), (''ai_focus'', YBool True),
      (''introduced_year'', YInt 2026), (''last_updated'', YStr ''2026-02-27''),
      (''delivery'', YStr ''exam''), (''renewal'', YStr ''4 years''), (''language'', YStr ''en''),
      (''role_groups'', YList [YStr ''Red Team Ops'']),
      (''roles'', YList [YStr ''offensive-ai-analyst'', YStr ''red-team-operator'']),
      (''tags'', YList [YStr ''offensive-ai'', YStr ''giac'', YStr ''cyberlive'']),
      (''prerequisites'', YList [YStr ''Offensive security experience recommended'']),
      (''description'',
         YStr ''New GIAC credential validating offensive AI tradecraft and adversarial workflows.''),
      (''summary'',
         YStr ''New GIAC credential validating offensive AI tradecraft and adversarial workflows.''),
      (''price_usd'', YInt 999), (''price_label'', YStr ''$999 exam''),
      (''price_confidence'', YStr ''estimated''),
      (''tooltip_legacy'', YStr ''GIAC Offensive AI Analyst (GOAA) | $999 exam'')]"

definition with_field :: "string \<Rightarrow> yval \<Rightarrow> (string \<times> yval) list \<Rightarrow> (string \<times> yval) list" where
  "with_field k v p = (k, v) # filter (\<lambda>kv. fst kv \<noteq> k) p"


section \<open>The index rebuilder\<close>

definition DOMAIN_ORDER :: "string list" where
  "DOMAIN_ORDER =
     [''Communication and Network Security'', ''IAM'',
      ''Security Architecture and Engineering'', ''Asset Security'',
      ''Security and Risk Management'', ''Security Assessment and Testing'',
      ''Software Security'', ''Security Operations'']"

definition SUBAREA_ORDER :: "string list" where
  "SUBAREA_ORDER =
     [''Cloud/SysOps'', ''*nix'', ''ICS/IoT'', ''GRC'', ''Forensics'',
      ''Incident Handling'', ''Penetration Testing'', ''Exploitation'']"

text \<open>
  A Python set of decoded values, as a list without duplicates. Values that compare
  equal are one element: \<open>True\<close> is \<open>1\<close> and \<open>False\<close> is \<open>0\<close>. Adding a list or a
  mapping raises \<open>TypeError\<close>.
\<close>

definition py_key :: "yval \<Rightarrow> yval" where
  "py_key v = (case v of YBool b \<Rightarrow> YInt (if b then 1 else 0) | _ \<Rightarrow> v)"

definition set_add :: "yval \<Rightarrow> yval list \<Rightarrow> py_error + yval list" where
  "set_add v s =
     (if \<not> hashable v then Inl TypeError
      else if list_ex (\<lambda>w. py_key w = py_key v) s then Inr s
      else Inr (s @ [v]))"

fun add_all :: "yval list \<Rightarrow> yval list \<Rightarrow> py_error + yval list" where
  "add_all [] s = Inr s"
| "add_all (v # vs) s = (case set_add v s of Inl e \<Rightarrow> Inl e | Inr s' \<Rightarrow> add_all vs s')"

text \<open>
  \<open>for sub in payload.get("sub_areas", []) or []\<close>: a value that counts as false
  gives no iteration; a list gives its elements, a string its characters, a mapping
  its keys; a number or \<open>True\<close> is not iterable.
\<close>

definition iterate :: "yval \<Rightarrow> py_error + yval list" where
  "iterate v =
     (case v of
        YNone \<Rightarrow> Inr []
      | YBool b \<Rightarrow> if b then Inl TypeError else Inr []
      | YInt i \<Rightarrow> if i = 0 then Inr [] else Inl TypeError
      | YStr s \<Rightarrow> Inr (map (\<lambda>c. YStr [c]) s)
      | YList xs \<Rightarrow> Inr xs
      | YDict kvs \<Rightarrow> Inr (map (\<lambda>kv. YStr (fst kv)) kvs))"

text \<open>The loop of \<open>main\<close> over the files: \<open>payload.get\<close> on a value that is no mapping
  raises \<open>AttributeError\<close>.\<close>

fun collect :: "(string \<times> yval) list \<Rightarrow> yval list \<Rightarrow> yval list \<Rightarrow> py_error + (yval list \<times> yval list)" where
  "collect [] domains sub_areas = Inr (domains, sub_areas)"
| "collect ((filename, YDict p) # files) domains sub_areas =
     (case set_add (get p ''domain_area'' (YStr ''Security Operations'')) domains of
        Inl e \<Rightarrow> Inl e
      | Inr domains' \<Rightarrow>
          (case iterate (get p ''sub_areas'' (YList [])) of
             Inl e \<Rightarrow> Inl e
           | Inr subs \<Rightarrow>
               (case add_all subs sub_areas of
                  Inl e \<Rightarrow> Inl e
                | Inr sub_areas' \<Rightarrow> collect files domains' sub_areas')))"
| "collect ((filename, payload) # files) domains sub_areas = Inl AttributeError"

text \<open>
  \<open>sorted\<close> on the elements of a set: strings are ordered as strings, integers and
  booleans as numbers; two elements of different kinds cannot be compared
  (\<open>TypeError\<close>).
\<close>

definition is_str :: "yval \<Rightarrow> bool" where
  "is_str v = (case v of YStr _ \<Rightarrow> True | _ \<Rightarrow> False)"

definition str_of :: "yval \<Rightarrow> string" where
  "str_of v = (case v of YStr s \<Rightarrow> s | _ \<Rightarrow> [])"

definition int_value :: "yval \<Rightarrow> int" where
  "int_value v = (case v of YInt i \<Rightarrow> i | YBool b \<Rightarrow> (if b then 1 else 0) | _ \<Rightarrow> 0)"

definition py_sorted :: "yval list \<Rightarrow> py_error + yval list" where
  "py_sorted vs =
     (if length vs \<le> 1 then Inr vs
      else if list_all is_str vs then Inr (map YStr (sort (map str_of vs)))
      else if list_all is_int vs then Inr (sort_key int_value vs)
      else Inl TypeError)"

text \<open>
  \<open>[x for x in ORDER if x in present] + sorted(present - set(ORDER))\<close>
\<close>

definition ordered :: "string list \<Rightarrow> yval list \<Rightarrow> py_error + yval list" where
  "ordered order present =
     (case py_sorted (filter (\<lambda>v. v \<notin> YStr ` set order) present) of
        Inl e \<Rightarrow> Inl e
      | Inr rest \<Rightarrow> Inr (map YStr (filter (\<lambda>x. YStr x \<in> set present) order) @ rest))"

record index =
  ix_catalog :: string
  ix_version :: string
  ix_last_reviewed :: string
  ix_schema :: string
  ix_domains :: "yval list"
  ix_sub_areas :: "yval list"
  ix_searchable_fields :: "string list"
  ix_certifications :: "string list"

text \<open>
  \<open>main\<close> of the rebuilder (\<open>main_rebuild\<close> here) takes the date of the day and the
  files that \<open>CERTS_DIR.glob("*.yaml")\<close> finds, each with the value its text decodes
  to, and returns the index it writes, or the exception that ended the run.
\<close>

definition main_rebuild :: "string \<Rightarrow> (string \<times> yval) list \<Rightarrow> py_error + index" where
  "main_rebuild today dir =
     (let files = sort_key fst dir
      in case collect files [] [] of
           Inl e \<Rightarrow> Inl e
         | Inr found \<Rightarrow>
             (case ordered DOMAIN_ORDER (fst found) of
                Inl e \<Rightarrow> Inl e
              | Inr ordered_domains \<Rightarrow>
                  (case ordered SUBAREA_ORDER (snd found) of
                     Inl e \<Rightarrow> Inl e
                   | Inr ordered_sub_areas \<Rightarrow>
                       Inr \<lparr>ix_catalog = ''TheCyberCert - Security Certification Roadmap'',
                            ix_version = ''2026.03'',
                            ix_last_reviewed = today,
                            ix_schema = ''v2'',
                            ix_domains = ordered_domains,
                            ix_sub_areas = ordered_sub_areas,
                            ix_searchable_fields =
                              [''name'', ''provider'', ''cert_code'', ''domain_area'', ''sub_areas'',
                               ''tracks'', ''level'', ''role_groups'', ''roles'', ''tags'', ''status'',
                               ''introduced_year'', ''description'', ''summary'', ''price_label'',
                               ''price_usd''],
                            ix_certifications = map fst files\<rparr>)))"

text \<open>
  The words of the index contract: the values in use, and a list ordered by a
  priority list followed by the other values in sorted order. A canonical record
  is a mapping with a string as \<open>domain_area\<close> and a list of strings as \<open>sub_areas\<close>.
\<close>

definition domains_in_use :: "(string \<times> yval) list \<Rightarrow> string set" where
  "domains_in_use dir =
     {d. \<exists>f p. (f, YDict p) \<in> set dir \<and> map_of p ''domain_area'' = Some (YStr d)}"

definition sub_areas_in_use :: "(string \<times> yval) list \<Rightarrow> string set" where
  "sub_areas_in_use dir =
     {s. \<exists>f p ss. (f, YDict p) \<in> set dir \<and> map_of p ''sub_areas'' = Some (YList ss)
           \<and> YStr s \<in> set ss}"

definition priority_order :: "string list \<Rightarrow> string set \<Rightarrow> string list" where
  "priority_order order present =
     filter (\<lambda>x. x \<in> present) order @ sorted_list_of_set (present - set order)"

definition canonical_record :: "yval \<Rightarrow> bool" where
  "canonical_record payload =
     (\<exists>p d ss. payload = YDict p \<and> map_of p ''domain_area'' = Some (YStr d)
        \<and> map_of p ''sub_areas'' = Some (YList (map YStr ss)))"

text \<open>A small catalog for concrete runs of the rebuilder: the sample record, and a
  record with a domain and sub-areas outside the priority lists.\<close>

definition other_record :: "(string \<times> yval) list" where
  "other_record =
     with_field ''domain_area'' (YStr ''Zeta'')
       (with_field ''sub_areas'' (YList [YStr ''GRC'', YStr ''Other'', YStr ''Alpha'']) sample_record)"

definition example_catalog :: "(string \<times> yval) list" where
  "example_catalog = [(''giac-goaa.yaml'', YDict sample_record), (''a-zeta.yaml'', YDict other_record)]"

section \<open>Properties of strings\<close>

lemma contains_sublist: "contains s p = sublist p s"
  by (induction s) (auto simp: sublist_Cons_right)


lemma hyphen_not_alnum: "\<not> slug_alnum CHR ''-''"
  by (simp add: slug_alnum_def is_lower_def is_digit_def lower_letters_def digits_def)

lemma sub_runs_chars: "list_all (\<lambda>c. slug_alnum c \<or> c = CHR ''-'') (sub_runs s)"
  by (induction s rule: sub_runs.induct) auto

lemma sub_runs_no_double: "\<not> contains (sub_runs s) ''--''"
proof (induction s rule: sub_runs.induct)
  case 1
  show ?case by simp
next
  case (2 c cs)
  show ?case
  proof (cases "slug_alnum c")
    case True
    with 2 hyphen_not_alnum show ?thesis by (auto simp: prefix_def)
  next
    case False
    let ?r = "dropWhile (\<lambda>x. \<not> slug_alnum x) cs"
    have nd: "\<not> contains (sub_runs ?r) ''--''" using 2 False by simp
    show ?thesis
    proof (cases ?r)
      case Nil
      with False show ?thesis by (simp add: prefix_def del: dropWhile_eq_Nil_conv)
    next
      case (Cons d ds)
      then have "slug_alnum d" using hd_dropWhile [of "\<lambda>x. \<not> slug_alnum x" cs] by auto
      with Cons nd False hyphen_not_alnum show ?thesis by (auto simp: prefix_def)
    qed
  qed
qed

lemma strip_chars_prefix: "prefix (rev (dropWhile P (rev t))) t"
proof -
  have "rev t = takeWhile P (rev t) @ dropWhile P (rev t)" by simp
  then have "t = rev (dropWhile P (rev t)) @ rev (takeWhile P (rev t))"
    by (metis rev_append rev_rev_ident)
  then show ?thesis by (metis prefixI)
qed

lemma strip_chars_sublist: "sublist (strip_chars P s) s"
proof -
  have "sublist (strip_chars P s) (dropWhile P s)"
    unfolding strip_chars_def using strip_chars_prefix by (rule prefix_imp_sublist)
  moreover have "sublist (dropWhile P s) s"
    by (rule suffix_imp_sublist) (rule suffix_dropWhile)
  ultimately show ?thesis by (rule sublist_order.order.trans)
qed

lemma strip_chars_hd: "strip_chars P s \<noteq> [] \<Longrightarrow> \<not> P (hd (strip_chars P s))"
proof -
  assume ne: "strip_chars P s \<noteq> []"
  obtain zs where z: "dropWhile P s = strip_chars P s @ zs"
    using strip_chars_prefix [of P "dropWhile P s"] unfolding strip_chars_def prefix_def by blast
  then have "hd (strip_chars P s) = hd (dropWhile P s)" using ne by (metis hd_append2)
  moreover have "dropWhile P s \<noteq> []" using z ne by auto
  ultimately show ?thesis using hd_dropWhile by metis
qed

lemma strip_chars_last: "strip_chars P s \<noteq> [] \<Longrightarrow> \<not> P (last (strip_chars P s))"
proof -
  assume ne: "strip_chars P s \<noteq> []"
  then have "dropWhile P (rev (dropWhile P s)) \<noteq> []" by (simp add: strip_chars_def)
  then have "\<not> P (hd (dropWhile P (rev (dropWhile P s))))" by (rule hd_dropWhile)
  moreover have "last (strip_chars P s) = hd (dropWhile P (rev (dropWhile P s)))"
    unfolding strip_chars_def using ne by (simp add: last_rev strip_chars_def)
  ultimately show ?thesis by simp
qed

lemma strip_chars_id: "s \<noteq> [] \<Longrightarrow> \<not> P (hd s) \<Longrightarrow> \<not> P (last s) \<Longrightarrow> strip_chars P s = s"
proof -
  assume ne: "s \<noteq> []" and h: "\<not> P (hd s)" and l: "\<not> P (last s)"
  have 1: "dropWhile P s = s" using ne h by (cases s) auto
  have "dropWhile P (rev s) = rev s" using ne l by (cases "rev s") (auto simp: last_rev [symmetric] hd_rev)
  then show ?thesis by (simp add: strip_chars_def 1)
qed

lemma slugify_valid: "valid_slug (slugify v)"
proof -
  let ?h = "\<lambda>c. c = CHR ''-''"
  let ?v2 = "sub_runs (strip (lower v))"
  let ?v3 = "strip_chars ?h ?v2"
  show ?thesis
  proof (cases "?v3 = []")
    case True
    then have "slugify v = ''cert''" by (simp add: slugify_def)
    then show ?thesis by (simp add: valid_slug_def slug_alnum_def is_lower_def prefix_def lower_letters_def)
  next
    case False
    then have eq: "slugify v = ?v3" by (simp add: slugify_def)
    have sl: "sublist ?v3 ?v2" by (rule strip_chars_sublist)
    have "set ?v3 \<subseteq> set ?v2" using sl by (rule set_mono_sublist)
    then have chars: "list_all (\<lambda>c. slug_alnum c \<or> c = CHR ''-'') ?v3"
      using sub_runs_chars [of "strip (lower v)"] unfolding list_all_iff by blast
    have nd: "\<not> contains ?v3 ''--''"
      using sub_runs_no_double [of "strip (lower v)"] sl
      unfolding contains_sublist by (meson sublist_order.order.trans)
    show ?thesis unfolding eq valid_slug_def
      using False chars nd strip_chars_hd [OF False] strip_chars_last [OF False] by simp
  qed
qed

lemma sub_runs_id:
  "list_all (\<lambda>c. slug_alnum c \<or> c = CHR ''-'') s \<Longrightarrow> \<not> contains s ''--'' \<Longrightarrow> sub_runs s = s"
proof (induction s rule: sub_runs.induct)
  case 1
  show ?case by simp
next
  case (2 c cs)
  show ?case
  proof (cases "slug_alnum c")
    case True
    with 2 show ?thesis by simp
  next
    case False
    then have c: "c = CHR ''-''" using 2(3) by simp
    have dw: "dropWhile (\<lambda>x. \<not> slug_alnum x) cs = cs"
    proof (cases cs)
      case Nil
      then show ?thesis by simp
    next
      case (Cons d ds)
      then have "d \<noteq> CHR ''-''" using 2(4) c by (auto simp: prefix_def)
      then have "slug_alnum d" using 2(3) Cons by simp
      then show ?thesis using Cons by simp
    qed
    have "sub_runs cs = cs" using 2(2) [OF False] 2(3,4) dw by simp
    then show ?thesis using False c dw by simp
  qed
qed

lemma slug_alnum_not_upper: "slug_alnum c \<or> c = CHR ''-'' \<Longrightarrow> \<not> is_upper c"
  by (auto simp: slug_alnum_def is_upper_def is_lower_def is_digit_def upper_letters_def lower_letters_def digits_def)

lemma slug_alnum_not_space: "slug_alnum c \<or> c = CHR ''-'' \<Longrightarrow> \<not> is_space c"
  by (auto simp: slug_alnum_def is_space_def is_lower_def is_digit_def lower_letters_def digits_def)

lemma not_upper_lower_char: "\<not> is_upper c \<Longrightarrow> lower_char c = c"
  unfolding lower_char_def is_upper_def 
  by (simp add: map_of_eq_None_iff [THEN iffD2] upper_letters_def lower_letters_def)

lemma slugify_of_valid: "valid_slug s \<Longrightarrow> slugify s = s"
proof -
  assume v: "valid_slug s"
  then have ne: "s \<noteq> []" and chars: "list_all (\<lambda>c. slug_alnum c \<or> c = CHR ''-'') s"
    and nd: "\<not> contains s ''--''" and h: "hd s \<noteq> CHR ''-''" and l: "last s \<noteq> CHR ''-''"
    by (simp_all add: valid_slug_def)
  have "lower s = s" unfolding lower_def
    using chars by (intro map_idI) (auto simp: list_all_iff slug_alnum_not_upper not_upper_lower_char)
  moreover have "strip s = s" unfolding strip_def
    using ne chars by (intro strip_chars_id) (auto simp: list_all_iff slug_alnum_not_space)
  moreover have "sub_runs s = s" using chars nd by (rule sub_runs_id)
  moreover have "strip_chars (\<lambda>c. c = CHR ''-'') s = s" using ne h l by (intro strip_chars_id)
  ultimately show ?thesis using ne by (simp add: slugify_def)
qed


section \<open>Properties of the importer\<close>

lemma unique_id_loop_spec:
  "suffixed base (unique_id_loop base used idx) |\<notin>| used
   \<and> idx \<le> unique_id_loop base used idx
   \<and> (\<forall>j. idx \<le> j \<and> j < unique_id_loop base used idx \<longrightarrow> suffixed base j |\<in>| used)"
proof (induction base used idx rule: unique_id_loop.induct)
  case (1 base used idx)
  show ?case
  proof (cases "suffixed base idx |\<in>| used")
    case True
    then have eq: "unique_id_loop base used idx = unique_id_loop base used (idx + 1)"
      by (subst unique_id_loop.simps) simp
    have ih: "suffixed base (unique_id_loop base used (idx + 1)) |\<notin>| used
       \<and> idx + 1 \<le> unique_id_loop base used (idx + 1)
       \<and> (\<forall>j. idx + 1 \<le> j \<and> j < unique_id_loop base used (idx + 1) \<longrightarrow> suffixed base j |\<in>| used)"
      using 1 True by blast
    show ?thesis unfolding eq using ih True
      by (metis Suc_eq_plus1 Suc_leI le_neq_implies_less add_leD1)
  next
    case False
    then have "unique_id_loop base used idx = idx"
      by (subst unique_id_loop.simps) simp
    with False show ?thesis by auto
  qed
qed

lemma unique_id_loop_least:
  "unique_id_loop base used 2 = (LEAST k. 2 \<le> k \<and> suffixed base k |\<notin>| used)"
proof (rule Least_equality [symmetric])
  show "2 \<le> unique_id_loop base used 2 \<and> suffixed base (unique_id_loop base used 2) |\<notin>| used"
    using unique_id_loop_spec [of base used 2] by simp
next
  fix y assume "2 \<le> y \<and> suffixed base y |\<notin>| used"
  then show "unique_id_loop base used 2 \<le> y"
    using unique_id_loop_spec [of base used 2] by (meson not_le)
qed

lemma suffixed_2: "suffixed base 2 = base @ ''-2''"
  by (simp add: suffixed_def str_nat.simps digit_char_def digits_def)

lemma suffixed_neq_base: "suffixed base k \<noteq> base"
  by (simp add: suffixed_def)

text \<open>
  C5. \<open>unique_id\<close> returns the base itself when it is unused, and otherwise
  \<open>base-k\<close> for the least \<open>k \<ge> 2\<close> whose \<open>base-k\<close> is unused (such a \<open>k\<close> exists);
  the returned identifier is added to the set. Hence two calls with the same base,
  starting from a set holding neither \<open>base\<close> nor \<open>base-2\<close> (the empty set of a
  fresh run in particular), give \<open>base\<close> and then \<open>base-2\<close>.
\<close>

theorem unique_id_first_unused:
  "(\<exists>k. 2 \<le> k \<and> suffixed base k |\<notin>| used)
   \<and> fst (unique_id base used) =
       (if base |\<notin>| used then base
        else suffixed base (LEAST k. 2 \<le> k \<and> suffixed base k |\<notin>| used))
   \<and> snd (unique_id base used) = finsert (fst (unique_id base used)) used
   \<and> (base |\<notin>| used \<and> base @ ''-2'' |\<notin>| used \<longrightarrow>
        fst (unique_id base used) = base
        \<and> fst (unique_id base (snd (unique_id base used))) = base @ ''-2'')
   \<and> fst (unique_id base {||}) = base
   \<and> fst (unique_id base (snd (unique_id base {||}))) = base @ ''-2''"
proof -
  have ex: "\<exists>k. 2 \<le> k \<and> suffixed base k |\<notin>| used"
    using unique_id_loop_spec [of base used 2] by blast
  have f: "fst (unique_id base used) =
       (if base |\<notin>| used then base
        else suffixed base (LEAST k. 2 \<le> k \<and> suffixed base k |\<notin>| used))"
    by (simp add: unique_id_def Let_def unique_id_loop_least)
  have s: "snd (unique_id base used) = finsert (fst (unique_id base used)) used"
    by (simp add: unique_id_def Let_def)
  have two: "fst (unique_id base u) = base
        \<and> fst (unique_id base (snd (unique_id base u))) = base @ ''-2''"
    if "base |\<notin>| u" "base @ ''-2'' |\<notin>| u" for u
  proof -
    have 1: "unique_id base u = (base, finsert base u)" using that by (simp add: unique_id_def)
    have "suffixed base 2 |\<notin>| finsert base u"
      using that suffixed_neq_base [of base 2] by (simp add: suffixed_2 [symmetric])
    then have "unique_id_loop base (finsert base u) 2 = 2"
      by (subst unique_id_loop.simps) simp
    then have "unique_id base (finsert base u) = (suffixed base 2, finsert (suffixed base 2) (finsert base u))"
      by (simp add: unique_id_def Let_def)
    with 1 show ?thesis by (simp add: suffixed_2)
  qed
  show ?thesis using ex f s two [of used] two [of "{||}"] by simp
qed

theorem unique_id_first_unused_witness:
  "''soc'' |\<notin>| {|''iam''|} \<and> ''soc'' @ ''-2'' |\<notin>| {|''iam''|}
   \<and> fst (unique_id ''soc'' {|''iam''|}) = ''soc''
   \<and> fst (unique_id ''soc'' (snd (unique_id ''soc'' {|''iam''|}))) = ''soc'' @ ''-2''
   \<and> fst (unique_id ''soc'' {|''soc'', ''soc-2''|}) = ''soc-3''"
proof -
  have a: "''soc'' |\<notin>| {|''iam''|} \<and> ''soc'' @ ''-2'' |\<notin>| {|''iam''|}" by simp
  have b: "fst (unique_id ''soc'' {|''soc'', ''soc-2''|}) = ''soc-3''" by code_simp
  show ?thesis
    using a b unique_id_first_unused [of "''soc''" "{|''iam''|}"] by blast
qed

text \<open>
  C6. Slug generation is idempotent: \<open>slugify (slugify s) = slugify s\<close> for every
  string, and a string that is already a valid slug is returned unchanged.
\<close>

theorem slugify_idempotent:
  "slugify (slugify s) = slugify s \<and> (valid_slug s \<longrightarrow> slugify s = s)"
  using slugify_of_valid slugify_valid by blast

theorem slugify_idempotent_witness:
  "valid_slug ''comptia-security-2'' \<and> slugify ''comptia-security-2'' = ''comptia-security-2''
   \<and> slugify (slugify ''CompTIA  Security+ 2'') = slugify ''CompTIA  Security+ 2''"
proof -
  have "valid_slug ''comptia-security-2''" by code_simp
  then show ?thesis
    using slugify_idempotent [of "''comptia-security-2''"]
      slugify_idempotent [of "''CompTIA  Security+ 2''"] by blast
qed

text \<open>
  C8. Provider inference does not strip a \<open>www.\<close> prefix: line 158 removes every
  occurrence of \<open>www.\<close> from the host. For \<open>https://newwww.comptia.org/certifications\<close>
  the host \<open>newwww.comptia.org\<close> has no \<open>www.\<close> prefix and ends with \<open>.comptia.org\<close>, so
  the specification gives \<open>CompTIA\<close>; the code turns the host into \<open>newcomptia.org\<close>
  and returns \<open>Newcomptia\<close>. On the example of the specification both give
  \<open>Hack The Box\<close>.
\<close>

theorem parse_provider_removes_inner_www:
  "netloc_of ''https://newwww.comptia.org/certifications'' = Inr ''newwww.comptia.org''
   \<and> strip_www_prefix ''newwww.comptia.org'' = ''newwww.comptia.org''
   \<and> host_matches ''newwww.comptia.org'' ''comptia.org''
   \<and> parse_provider_spec ''https://newwww.comptia.org/certifications'' = ''CompTIA''
   \<and> replace_all ''newwww.comptia.org'' ''www.'' [] = ''newcomptia.org''
   \<and> parse_provider ''https://newwww.comptia.org/certifications'' = ''Newcomptia''
   \<and> parse_provider ''https://academy.hackthebox.com/cert'' = ''Hack The Box''
   \<and> parse_provider_spec ''https://academy.hackthebox.com/cert'' = ''Hack The Box''"
proof -
  have "netloc_of ''https://newwww.comptia.org/certifications'' = Inr ''newwww.comptia.org''"
    by code_simp
  moreover have "strip_www_prefix ''newwww.comptia.org'' = ''newwww.comptia.org''"
    by code_simp
  moreover have "host_matches ''newwww.comptia.org'' ''comptia.org''"
    by code_simp
  moreover have "parse_provider_spec ''https://newwww.comptia.org/certifications'' = ''CompTIA''"
    by code_simp
  moreover have "replace_all ''newwww.comptia.org'' ''www.'' [] = ''newcomptia.org''"
    by code_simp
  moreover have "parse_provider ''https://newwww.comptia.org/certifications'' = ''Newcomptia''"
    by code_simp
  moreover have "parse_provider ''https://academy.hackthebox.com/cert'' = ''Hack The Box''"
    by code_simp
  moreover have "parse_provider_spec ''https://academy.hackthebox.com/cert'' = ''Hack The Box''"
    by code_simp
  ultimately show ?thesis by blast
qed

lemma int_float_370: "int_float ''370'' = Inr 370"
proof -
  have d: "nat_of_digits ''370'' = 370" by code_simp
  have b: "bit_length 370 = 9" "bit_length 1 = 1" by code_simp+
  have "int_of_float_of 370 0 = Inr 370"
    by (simp add: int_of_float_of_def round_half_even_def binary_exponent_def Let_def b)
  then show ?thesis by (simp add: int_float_def d)
qed

lemma extract_price_example:
  "extract_price [''CompTIA Security+'', ''$370 exam voucher'']
     = Inr (''$370 exam voucher'', 370, ''from-original-tooltip'')"
proof -
  let ?lines = "[''CompTIA Security+'', ''$370 exam voucher'']"
  have cue: "filter has_price_cue (tl ?lines) = [''$370 exam voucher'']" by code_simp
  have lab: "join '' | '' (take 2 [''$370 exam voucher'']) = ''$370 exam voucher''" by code_simp
  have am: "amount_match ''$370 exam voucher'' = Some ''370''" by code_simp
  have rp: "replace_all ''370'' '','' [] = ''370''" by code_simp
  have ne: "?lines \<noteq> []" "[''$370 exam voucher''] \<noteq> []" by simp_all
  show ?thesis
    unfolding extract_price_def Let_def cue
    by (simp only: ne if_False if_True simp_thms lab am rp int_float_370 option.case sum.case)
qed

lemma build_cert_fields:
  assumes "normalize_lines (raw_tooltiptext r) = l # ls"
    and "extract_price (l # ls) = Inr (label, usd, conf)"
  shows "\<exists>built. build_cert r u = Inr built
        \<and> c_description (fst built) = l
        \<and> c_price_label (fst built) = label
        \<and> c_price_usd (fst built) = usd
        \<and> c_price_confidence (fst built) = conf"
  by (simp add: build_cert_def Let_def assms)

text \<open>
  C9. The tooltip \<open>CompTIA Security+\n$370 exam voucher\<close>, with the line break given
  either as a line-break character or as the two characters backslash and \<open>n\<close>, is
  normalised to the lines \<open>CompTIA Security+\<close> and \<open>$370 exam voucher\<close>; the
  description of the record built from it is the first line, the price label is
  \<open>$370 exam voucher\<close>, the price 370 and the confidence \<open>from-original-tooltip\<close>.
\<close>

theorem tooltip_example:
  "normalize_lines example_tooltip = [''CompTIA Security+'', ''$370 exam voucher'']
   \<and> normalize_lines example_tooltip_escaped = [''CompTIA Security+'', ''$370 exam voucher'']
   \<and> extract_price (normalize_lines example_tooltip)
     = Inr (''$370 exam voucher'', 370, ''from-original-tooltip'')
   \<and> contains ''$370 exam voucher'' ''$370 exam voucher''
   \<and> (\<exists>built. build_cert example_raw_record {||} = Inr built
        \<and> c_description (fst built) = ''CompTIA Security+''
        \<and> c_price_label (fst built) = ''$370 exam voucher''
        \<and> c_price_usd (fst built) = 370
        \<and> c_price_confidence (fst built) = ''from-original-tooltip'')"
proof -
  have n1: "normalize_lines example_tooltip = [''CompTIA Security+'', ''$370 exam voucher'']"
    by code_simp
  have n2: "normalize_lines example_tooltip_escaped = [''CompTIA Security+'', ''$370 exam voucher'']"
    by code_simp
  have c: "contains ''$370 exam voucher'' ''$370 exam voucher''" by code_simp
  have e: "extract_price (normalize_lines example_tooltip)
     = Inr (''$370 exam voucher'', 370, ''from-original-tooltip'')"
    unfolding n1 by (rule extract_price_example)
  have t: "normalize_lines (raw_tooltiptext example_raw_record)
     = [''CompTIA Security+'', ''$370 exam voucher'']"
    unfolding example_raw_record_def using n1 by (simp only: raw_record.simps)
  note b = build_cert_fields [OF t extract_price_example, of "{||}"]
  from n1 n2 c b e show ?thesis by blast
qed















section \<open>Properties of the validator\<close>





declare scan.simps [simp del]









text \<open>
  C4. \<open>main\<close> does not always run to completion: line 247 converts \<open>price_usd\<close> with
  \<open>int\<close> outside any \<open>try\<close>, after line 190 has already recorded that the value is not
  an integer. A record that is valid except for \<open>price_usd: abc\<close> ends the run with
  \<open>ValueError\<close>, and a list as \<open>price_usd\<close> ends it with \<open>TypeError\<close>; no message is
  printed and no exit code is returned. A list inside \<open>sub_areas\<close> does the same at
  line 146, where an unhashable value is looked up in a set. The same record with
  its integer price passes.
\<close>

theorem main_raises_on_non_integer_price:
  "main [(''giac-goaa.yaml'', YDict (with_field ''price_usd'' (YStr ''abc'') sample_record))]
     = Inl ValueError
   \<and> main [(''giac-goaa.yaml'', YDict (with_field ''price_usd'' (YList [YInt 999]) sample_record))]
     = Inl TypeError
   \<and> main [(''giac-goaa.yaml'', YDict (with_field ''sub_areas'' (YList [YList []]) sample_record))]
     = Inl TypeError
   \<and> main [(''giac-goaa.yaml'', YDict sample_record)] = Inr ([], 0)"
proof -
  have "main [(''giac-goaa.yaml'', YDict (with_field ''sub_areas'' (YList [YList []]) sample_record))]
     = Inl TypeError" by code_simp
  moreover
  have "main [(''giac-goaa.yaml'', YDict (with_field ''price_usd'' (YStr ''abc'') sample_record))]
     = Inl ValueError" by code_simp
  moreover have
    "main [(''giac-goaa.yaml'', YDict (with_field ''price_usd'' (YList [YInt 999]) sample_record))]
     = Inl TypeError" by code_simp
  moreover have "main [(''giac-goaa.yaml'', YDict sample_record)] = Inr ([], 0)" by code_simp
  ultimately show ?thesis by blast
qed






































section \<open>Properties of the index rebuilder\<close>

lemma map_insort_key_fst:
  "map f (insort_key f x ys) = insort (f x) (map f ys)"
  by (induction ys) auto

lemma map_sort_key: "map f (sort_key f xs) = sort (map f xs)"
  by (induction xs) (auto simp: map_insort_key_fst)

lemma is_str_iff: "is_str v \<longleftrightarrow> (\<exists>s. v = YStr s)"
  by (cases v) (auto simp: is_str_def)

lemma all_str_image: "list_all is_str vs \<Longrightarrow> map YStr (map str_of vs) = vs"
  by (induction vs) (auto simp: is_str_iff str_of_def)

lemma member_key:
  "list_all is_str D \<Longrightarrow> list_ex (\<lambda>w. py_key w = py_key (YStr d)) D \<longleftrightarrow> YStr d \<in> set D"
  by (induction D) (auto simp: is_str_iff py_key_def)

lemma set_add_str:
  assumes "list_all is_str D" and "distinct D"
  shows "\<exists>D'. set_add (YStr d) D = Inr D' \<and> list_all is_str D' \<and> distinct D'
           \<and> set D' = insert (YStr d) (set D)"
  using assms by (auto simp: set_add_def hashable_def member_key is_str_def)

lemma add_all_str:
  assumes "list_all is_str S" and "distinct S"
  shows "\<exists>S'. add_all (map YStr ss) S = Inr S' \<and> list_all is_str S' \<and> distinct S'
           \<and> set S' = set S \<union> YStr ` set ss"
  using assms
proof (induction ss arbitrary: S)
  case Nil
  then show ?case by simp
next
  case (Cons s ss)
  from set_add_str [OF Cons.prems, of s] obtain S1 where 1: "set_add (YStr s) S = Inr S1"
    and a: "list_all is_str S1" and d: "distinct S1" and e: "set S1 = insert (YStr s) (set S)"
    by blast
  from Cons.IH [OF a d] obtain S' where "add_all (map YStr ss) S1 = Inr S'"
    "list_all is_str S'" "distinct S'" "set S' = set S1 \<union> YStr ` set ss" by blast
  with 1 e show ?case by auto
qed


lemma domains_in_use_Cons:
  assumes "map_of p ''domain_area'' = Some (YStr d)"
  shows "domains_in_use ((f, YDict p) # entries) = insert d (domains_in_use entries)"
proof (rule set_eqI)
  fix s
  show "s \<in> domains_in_use ((f, YDict p) # entries) \<longleftrightarrow> s \<in> insert d (domains_in_use entries)"
  proof
    assume "s \<in> domains_in_use ((f, YDict p) # entries)"
    then obtain g q where g: "(g, YDict q) \<in> set ((f, YDict p) # entries)"
      and q: "map_of q ''domain_area'' = Some (YStr s)"
      unfolding domains_in_use_def by blast
    show "s \<in> insert d (domains_in_use entries)"
    proof (cases "q = p \<and> g = f")
      case True
      with q assms show ?thesis by simp
    next
      case False
      with g have "(g, YDict q) \<in> set entries" by auto
      with q have "s \<in> domains_in_use entries" unfolding domains_in_use_def by blast
      then show ?thesis by simp
    qed
  next
    assume "s \<in> insert d (domains_in_use entries)"
    then consider "s = d" | "s \<in> domains_in_use entries" by blast
    then show "s \<in> domains_in_use ((f, YDict p) # entries)"
    proof cases
      case 1
      have "(f, YDict p) \<in> set ((f, YDict p) # entries)" by simp
      with assms 1 show ?thesis unfolding domains_in_use_def by blast
    next
      case 2
      then obtain g q where "(g, YDict q) \<in> set entries" "map_of q ''domain_area'' = Some (YStr s)"
        unfolding domains_in_use_def by blast
      then have "(g, YDict q) \<in> set ((f, YDict p) # entries)
          \<and> map_of q ''domain_area'' = Some (YStr s)" by simp
      then show ?thesis unfolding domains_in_use_def by blast
    qed
  qed
qed

lemma sub_areas_in_use_Cons:
  assumes "map_of p ''sub_areas'' = Some (YList (map YStr ss))"
  shows "sub_areas_in_use ((f, YDict p) # entries) = set ss \<union> sub_areas_in_use entries"
proof (rule set_eqI)
  fix s
  show "s \<in> sub_areas_in_use ((f, YDict p) # entries) \<longleftrightarrow> s \<in> set ss \<union> sub_areas_in_use entries"
  proof
    assume "s \<in> sub_areas_in_use ((f, YDict p) # entries)"
    then obtain g q qs where g: "(g, YDict q) \<in> set ((f, YDict p) # entries)"
      and q: "map_of q ''sub_areas'' = Some (YList qs)" and s: "YStr s \<in> set qs"
      unfolding sub_areas_in_use_def by blast
    show "s \<in> set ss \<union> sub_areas_in_use entries"
    proof (cases "q = p \<and> g = f")
      case True
      with q assms have "qs = map YStr ss" by simp
      with s show ?thesis by auto
    next
      case False
      with g have "(g, YDict q) \<in> set entries" by auto
      with q s have "s \<in> sub_areas_in_use entries" unfolding sub_areas_in_use_def by blast
      then show ?thesis by simp
    qed
  next
    assume "s \<in> set ss \<union> sub_areas_in_use entries"
    then consider "s \<in> set ss" | "s \<in> sub_areas_in_use entries" by blast
    then show "s \<in> sub_areas_in_use ((f, YDict p) # entries)"
    proof cases
      case 1
      then have "YStr s \<in> set (map YStr ss)" by simp
      moreover have "(f, YDict p) \<in> set ((f, YDict p) # entries)" by simp
      ultimately show ?thesis using assms unfolding sub_areas_in_use_def by blast
    next
      case 2
      then obtain g q qs where "(g, YDict q) \<in> set entries"
        "map_of q ''sub_areas'' = Some (YList qs)" "YStr s \<in> set qs"
        unfolding sub_areas_in_use_def by blast
      then have "(g, YDict q) \<in> set ((f, YDict p) # entries)
          \<and> map_of q ''sub_areas'' = Some (YList qs) \<and> YStr s \<in> set qs" by simp
      then show ?thesis unfolding sub_areas_in_use_def by blast
    qed
  qed
qed

lemma collect_canonical:
  assumes "\<forall>entry\<in>set entries. canonical_record (snd entry)"
    and "list_all is_str D" "distinct D" "list_all is_str S" "distinct S"
  shows "\<exists>D' S'. collect entries D S = Inr (D', S')
           \<and> list_all is_str D' \<and> distinct D' \<and> list_all is_str S' \<and> distinct S'
           \<and> set D' = set D \<union> YStr ` domains_in_use entries
           \<and> set S' = set S \<union> YStr ` sub_areas_in_use entries"
  using assms
proof (induction entries arbitrary: D S)
  case Nil
  then show ?case by (simp add: domains_in_use_def sub_areas_in_use_def)
next
  case (Cons entry entries)
  obtain f payload where entry: "entry = (f, payload)" by (cases entry)
  from Cons.prems(1) obtain p d ss where p: "payload = YDict p"
    and dm: "map_of p ''domain_area'' = Some (YStr d)"
    and sm: "map_of p ''sub_areas'' = Some (YList (map YStr ss))"
    by (auto simp: entry canonical_record_def)
  have gd: "get p ''domain_area'' (YStr ''Security Operations'') = YStr d"
    and gs: "get p ''sub_areas'' (YList []) = YList (map YStr ss)"
    using dm sm by (simp_all add: get_def)
  from set_add_str [OF Cons.prems(2,3), of d] obtain D1 where
    1: "set_add (YStr d) D = Inr D1" and D1: "list_all is_str D1" "distinct D1"
    and e1: "set D1 = insert (YStr d) (set D)" by blast
  from add_all_str [OF Cons.prems(4,5), of ss] obtain S1 where
    2: "add_all (map YStr ss) S = Inr S1" and S1: "list_all is_str S1" "distinct S1"
    and e2: "set S1 = set S \<union> YStr ` set ss" by blast
  have "\<forall>entry\<in>set entries. canonical_record (snd entry)" using Cons.prems(1) by simp
  from Cons.IH [OF this D1 S1] obtain D' S' where
    3: "collect entries D1 S1 = Inr (D', S')"
    and r: "list_all is_str D'" "distinct D'" "list_all is_str S'" "distinct S'"
    and e3: "set D' = set D1 \<union> YStr ` domains_in_use entries"
      "set S' = set S1 \<union> YStr ` sub_areas_in_use entries" by blast
  have "collect (entry # entries) D S = Inr (D', S')"
    by (simp add: entry p gd gs 1 2 3 iterate_def)
  moreover have "set D' = set D \<union> YStr ` domains_in_use (entry # entries)"
    unfolding entry p domains_in_use_Cons [OF dm] e3 e1 by auto
  moreover have "set S' = set S \<union> YStr ` sub_areas_in_use (entry # entries)"
    unfolding entry p sub_areas_in_use_Cons [OF sm] e3 e2 by auto
  ultimately show ?case using r by blast
qed

lemma py_sorted_str:
  assumes "list_all is_str R"
  shows "py_sorted R = Inr (map YStr (sort (map str_of R)))"
proof (cases "length R \<le> 1")
  case True
  then have "R = [] \<or> (\<exists>v. R = [v])" by (cases R) (auto simp: length_Suc_conv)
  with assms True show ?thesis by (auto simp: py_sorted_def is_str_iff str_of_def)
next
  case False
  with assms show ?thesis by (simp add: py_sorted_def)
qed

lemma ordered_str:
  assumes "list_all is_str P" and "distinct P" and "set P = YStr ` T"
  shows "ordered order P = Inr (map YStr (priority_order order T))"
proof -
  let ?R = "filter (\<lambda>v. v \<notin> YStr ` set order) P"
  have R: "list_all is_str ?R" using assms(1) by (simp add: list_all_iff)
  have inj: "inj_on str_of (set ?R)"
  proof (rule inj_onI)
    fix x y assume "x \<in> set ?R" "y \<in> set ?R" "str_of x = str_of y"
    moreover from this assms(1) have "is_str x" "is_str y" by (auto simp: list_all_iff)
    then obtain a b where "x = YStr a" "y = YStr b" unfolding is_str_iff by blast
    ultimately show "x = y" by (simp add: str_of_def)
  qed
  have dist: "distinct (map str_of ?R)" using assms(2) inj by (simp add: distinct_map)
  have "set (map str_of ?R) = T - set order"
  proof (rule set_eqI)
    fix s
    show "s \<in> set (map str_of ?R) \<longleftrightarrow> s \<in> T - set order"
    proof
      assume "s \<in> set (map str_of ?R)"
      then obtain v where v: "v \<in> set P" "v \<notin> YStr ` set order" "s = str_of v" by auto
      with assms(3) obtain t where "v = YStr t" "t \<in> T" by auto
      with v show "s \<in> T - set order" by (auto simp: str_of_def)
    next
      assume "s \<in> T - set order"
      then have "YStr s \<in> set P" "YStr s \<notin> YStr ` set order" using assms(3) by auto
      then have "YStr s \<in> set ?R" by simp
      then have "str_of (YStr s) \<in> str_of ` set ?R" by (rule imageI)
      then show "s \<in> set (map str_of ?R)" by (simp add: str_of_def)
    qed
  qed
  then have "sorted_list_of_set (T - set order) = sort (map str_of ?R)"
    using dist by (metis sorted_list_of_set_sort_remdups distinct_remdups_id)
  moreover have "filter (\<lambda>x. YStr x \<in> set P) order = filter (\<lambda>x. x \<in> T) order"
    using assms(3) by (auto intro: filter_cong)
  ultimately show ?thesis
    by (simp add: ordered_def py_sorted_str [OF R] priority_order_def)
qed


lemma in_use_sorted:
  "domains_in_use (sort_key fst dir) = domains_in_use dir"
  "sub_areas_in_use (sort_key fst dir) = sub_areas_in_use dir"
  by (simp_all only: domains_in_use_def sub_areas_in_use_def set_sort)

text \<open>
  C7. For every collection of canonical record files (each a mapping with a string
  as \<open>domain_area\<close> and a list of strings as \<open>sub_areas\<close>), the rebuilder completes and
  its index lists the domains in use in the order of the priority list, followed by
  the other domains in use in sorted order; the sub-areas in use in the same way;
  and the sorted list of all file names. A run on another day gives the same index
  but for \<open>last_reviewed\<close>.
\<close>

theorem index_lists:
  assumes "\<forall>entry\<in>set dir. canonical_record (snd entry)"
  shows "\<exists>ix. main_rebuild today dir = Inr ix
     \<and> ix_domains ix = map YStr (priority_order DOMAIN_ORDER (domains_in_use dir))
     \<and> ix_sub_areas ix = map YStr (priority_order SUBAREA_ORDER (sub_areas_in_use dir))
     \<and> ix_certifications ix = sort (map fst dir)
     \<and> (\<forall>another_day. main_rebuild another_day dir = Inr (ix\<lparr>ix_last_reviewed := another_day\<rparr>))"
proof -
  let ?files = "sort_key fst dir"
  have "\<forall>entry\<in>set ?files. canonical_record (snd entry)" using assms by (simp only: set_sort)
  from collect_canonical [OF this, of "[]" "[]"] obtain D S where
    c: "collect ?files [] [] = Inr (D, S)"
    and D: "list_all is_str D" "distinct D" and S: "list_all is_str S" "distinct S"
    and eD: "set D = YStr ` domains_in_use dir" and eS: "set S = YStr ` sub_areas_in_use dir"
    unfolding in_use_sorted by auto
  note oD = ordered_str [OF D eD, of DOMAIN_ORDER]
  note oS = ordered_str [OF S eS, of SUBAREA_ORDER]
  have run: "main_rebuild t dir =
      Inr \<lparr>ix_catalog = ''TheCyberCert - Security Certification Roadmap'',
           ix_version = ''2026.03'',
           ix_last_reviewed = t,
           ix_schema = ''v2'',
           ix_domains = map YStr (priority_order DOMAIN_ORDER (domains_in_use dir)),
           ix_sub_areas = map YStr (priority_order SUBAREA_ORDER (sub_areas_in_use dir)),
           ix_searchable_fields =
             [''name'', ''provider'', ''cert_code'', ''domain_area'', ''sub_areas'',
              ''tracks'', ''level'', ''role_groups'', ''roles'', ''tags'', ''status'',
              ''introduced_year'', ''description'', ''summary'', ''price_label'',
              ''price_usd''],
           ix_certifications = sort (map fst dir)\<rparr>" for t
    unfolding main_rebuild_def Let_def c by (simp add: oD oS map_sort_key)
  show ?thesis unfolding run by simp
qed

theorem index_lists_witness:
  "canonical_record (YDict sample_record) \<and> canonical_record (YDict other_record)
   \<and> (\<exists>ix. main_rebuild ''2026-11-04'' example_catalog = Inr ix
        \<and> ix_domains ix = [YStr ''Security Operations'', YStr ''Zeta'']
        \<and> ix_sub_areas ix = [YStr ''GRC'', YStr ''Exploitation'', YStr ''Alpha'', YStr ''Other'']
        \<and> ix_certifications ix = [''a-zeta.yaml'', ''giac-goaa.yaml'']
        \<and> main_rebuild ''2026-11-05'' example_catalog
             = Inr (ix\<lparr>ix_last_reviewed := ''2026-11-05''\<rparr>)
        \<and> map YStr (priority_order DOMAIN_ORDER (domains_in_use example_catalog))
             = [YStr ''Security Operations'', YStr ''Zeta''])"
proof -
  have d1: "map_of sample_record ''domain_area'' = Some (YStr ''Security Operations'')"
    by code_simp
  have s1: "map_of sample_record ''sub_areas'' = Some (YList (map YStr [''Exploitation'']))"
    by code_simp
  have d2: "map_of other_record ''domain_area'' = Some (YStr ''Zeta'')" by code_simp
  have s2: "map_of other_record ''sub_areas'' = Some (YList (map YStr [''GRC'', ''Other'', ''Alpha'']))"
    by code_simp
  have c1: "canonical_record (YDict sample_record)"
    unfolding canonical_record_def using d1 s1 by blast
  have c2: "canonical_record (YDict other_record)"
    unfolding canonical_record_def using d2 s2 by blast
  have all: "\<forall>entry\<in>set example_catalog. canonical_record (snd entry)"
    using c1 c2 by (simp add: example_catalog_def)
  have dom: "(case main_rebuild ''2026-11-04'' example_catalog of
               Inr ix \<Rightarrow> (ix_domains ix, ix_sub_areas ix, ix_certifications ix)
             | Inl e \<Rightarrow> ([], [], []))
      = ([YStr ''Security Operations'', YStr ''Zeta''],
         [YStr ''GRC'', YStr ''Exploitation'', YStr ''Alpha'', YStr ''Other''],
         [''a-zeta.yaml'', ''giac-goaa.yaml''])"
    by code_simp
  from index_lists [OF all, of "''2026-11-04''"] obtain ix where
    ix: "main_rebuild ''2026-11-04'' example_catalog = Inr ix"
    and a: "ix_domains ix = map YStr (priority_order DOMAIN_ORDER (domains_in_use example_catalog))"
    and b: "\<forall>another_day. main_rebuild another_day example_catalog
          = Inr (ix\<lparr>ix_last_reviewed := another_day\<rparr>)"
    by blast
  from dom ix have v: "ix_domains ix = [YStr ''Security Operations'', YStr ''Zeta'']"
    "ix_sub_areas ix = [YStr ''GRC'', YStr ''Exploitation'', YStr ''Alpha'', YStr ''Other'']"
    "ix_certifications ix = [''a-zeta.yaml'', ''giac-goaa.yaml'']"
    by simp_all
  from b have "main_rebuild ''2026-11-05'' example_catalog
             = Inr (ix\<lparr>ix_last_reviewed := ''2026-11-05''\<rparr>)" by blast
  with c1 c2 ix v a show ?thesis by metis
qed


end
